theory Spec2Isabelle
  imports Main "HOL-Library.AList" "HOL-Library.Sublist"
begin

section \<open>Values, errors and console output\<close>

text \<open>
  The Go sources under verification are four revisions of \<^verbatim>\<open>internal/publish.go\<close>.
  Each defines \<^verbatim>\<open>PinServiceImages\<close>, \<^verbatim>\<open>createTgz\<close> and \<^verbatim>\<open>CreateBundle\<close> (or
  \<^verbatim>\<open>CreateApp\<close>).  The revisions are told apart by a suffix:
  \<^item> \<open>publish\<close>: \<^verbatim>\<open>src/internal/publish.go\<close> (typed configuration, engine inspection);
  \<^item> \<open>part003\<close>: \<^verbatim>\<open>src/unnamed/part_003\<close> (untyped service map, engine inspection);
  \<^item> \<open>part002\<close>: \<^verbatim>\<open>src/unnamed/part_002\<close> (untyped service map, registry lookup);
  \<^item> \<open>part001\<close>: \<^verbatim>\<open>src/unnamed/part_001\<close> (registry lookup, variable defaults,
    ignore file, symbolic links).
\<close>

type_synonym bytes = string

text \<open>A \<^verbatim>\<open>digest.Digest\<close> is a Go string; the zero value is the empty string.\<close>
type_synonym digest = string

text \<open>
  Values of type \<^verbatim>\<open>interface{}\<close> as the YAML decoder produces them.  A Go map is an
  association list; the order of the list of services is the order in which
  \<^verbatim>\<open>range\<close> visits the keys in the run under consideration.
\<close>
datatype val = VString string | VMap "(string \<times> val) list" | VOther

text \<open>
  What the code sees of a \<^verbatim>\<open>reference.Named\<close>: \<^verbatim>\<open>reference.Domain\<close>,
  \<^verbatim>\<open>reference.Path\<close>, and the tag when the value implements \<^verbatim>\<open>reference.Tagged\<close>.
\<close>
record reference =
  ref_domain :: string
  ref_path :: string
  ref_tag :: "string option"
  ref_digest :: "digest option"

record platform =
  Architecture :: string
  Variant :: string

text \<open>The dynamic type of a \<^verbatim>\<open>distribution.Manifest\<close>; \<open>NilManifest\<close> is the nil interface.\<close>
datatype manifest =
    DeserializedManifestList "platform list"
  | DeserializedManifest
  | OtherManifest
  | NilManifest

text \<open>
  Error values.  \<open>Upstream e\<close> is an error handed back by a library or collaborator call
  and returned unchanged (\<^verbatim>\<open>return err\<close>); every other constructor is one
  \<^verbatim>\<open>fmt.Errorf\<close> site of the sources, with its operands.
\<close>
datatype error =
    Upstream string
  | InvalidFormat string
  | MissingImage string
  | InvalidImage string
  | NotVariableDefault string
  | NoDefaultValue string
  | MustBeTagged string
  | UnexpectedManifest manifest
  | CantStat string string
  | NonRegular string
  | CantFindSymlink string

datatype panic = IndexOutOfRange | NilDereference | FailedTypeAssertion

text \<open>How a call ends: it returns an error value (\<open>None\<close> is Go's \<^verbatim>\<open>nil\<close>) or panics.\<close>
datatype outcome = Returned "error option" | Panicked panic

text \<open>
  Console output is kept as the list of calls made to package \<^verbatim>\<open>fmt\<close>, with the
  format string and the operands of each call.
\<close>
datatype print = Printf string "string list" | Println "string list"

text \<open>
  The text a list of calls puts on the console.  \<^verbatim>\<open>Println\<close> separates its operands
  by a blank and adds a newline.  \<^verbatim>\<open>Printf\<close> prints its format; in it \<^verbatim>\<open>%%\<close> is a
  percent sign, \<^verbatim>\<open>%s\<close> is replaced by the next string operand, a verb that is a
  lowercase letter and finds no operand left prints \<^verbatim>\<open>%!\<close>, the verb and
  \<^verbatim>\<open>(MISSING)\<close>, and a percent sign at the end of the format prints \<^verbatim>\<open>%!(NOVERB)\<close>.
  Flags, widths, indices, other verbs and operands left over are outside this model
  (\<open>None\<close>).
\<close>
fun Sprintf :: "string \<Rightarrow> string list \<Rightarrow> string option" where
  "Sprintf [] args = (if args = [] then Some [] else None)"
| "Sprintf (c # fmt) args =
     (if c \<noteq> CHR ''%'' then map_option ((#) c) (Sprintf fmt args)
      else (case fmt of
              [] \<Rightarrow> (if args = [] then Some ''%!(NOVERB)'' else None)
            | d # fmt' \<Rightarrow>
                if d = CHR ''%'' then map_option ((#) CHR ''%'') (Sprintf fmt' args)
                else if d \<in> set ''abcdefghijklmnopqrstuvwxyz'' then
                  (case args of
                     [] \<Rightarrow> map_option ((@) (''%!'' @ [d] @ ''(MISSING)'')) (Sprintf fmt' [])
                   | a # args' \<Rightarrow>
                       if d = CHR ''s'' then map_option ((@) a) (Sprintf fmt' args') else None)
                else None))"

fun Sprintln :: "string list \<Rightarrow> string" where
  "Sprintln [] = [CHR 0x0A]"
| "Sprintln [a] = a @ [CHR 0x0A]"
| "Sprintln (a # b # as) = a @ '' '' @ Sprintln (b # as)"

fun console :: "print list \<Rightarrow> string option" where
  "console [] = Some []"
| "console (Printf fmt args # ps) =
     (case Sprintf fmt args of
        None \<Rightarrow> None
      | Some s \<Rightarrow> map_option ((@) s) (console ps))"
| "console (Println args # ps) = map_option ((@) (Sprintln args)) (console ps)"

section \<open>Collaborators\<close>

text \<open>
  Calls that leave the repository are parameters.  A call whose error the code checks
  at once is a sum (\<open>Inl\<close> the error message).  The three calls of the registry lookup
  whose error the code does not check return Go's pair of a value and an error.
\<close>

record repository =
  TagsGet :: "string \<Rightarrow> digest \<times> string option"
  Manifests :: "(digest \<Rightarrow> manifest \<times> string option) option \<times> string option"

record ServiceConfig =
  Name :: string
  Image :: string

record collaborators =
  ParseNormalizedNamed :: "string \<Rightarrow> string + reference"
  GetRepository :: "reference \<Rightarrow> string + repository"
  DistributionInspect :: "string \<Rightarrow> string + digest \<times> platform list"
  WithServices :: "ServiceConfig list \<Rightarrow> ServiceConfig list \<times> string option"

section \<open>PinServiceImages\<close>

text \<open>\<^verbatim>\<open>reference.Domain(named) + "/" + reference.Path(named) + "@" + digest\<close>\<close>
definition pinned_image :: "reference \<Rightarrow> digest \<Rightarrow> string" where
  "pinned_image named d = ref_domain named @ ''/'' @ ref_path named @ ''@'' @ d"

text \<open>
  The loop over the platforms, the same in all four revisions: a comma before every
  entry but the first, the architecture, and the variant after architecture \<^verbatim>\<open>arm\<close>.
  Each text is passed to \<^verbatim>\<open>fmt.Printf\<close> as the format string.
\<close>
definition print_platform :: "nat \<times> platform \<Rightarrow> print list" where
  "print_platform ip =
     (if fst ip \<noteq> 0 then [Printf '', '' []] else [])
     @ [Printf (Architecture (snd ip)) []]
     @ (if Architecture (snd ip) = ''arm'' then [Printf (Variant (snd ip)) []] else [])"

definition print_platforms :: "platform list \<Rightarrow> print list" where
  "print_platforms ps = concat (map print_platform (enumerate 0 ps))"

definition print_pinned :: "string \<Rightarrow> print" where
  "print_pinned pinned = Println [CHR 0x0A # ''  |-> '', pinned]"

definition print_pinning :: "string \<Rightarrow> string \<Rightarrow> print" where
  "print_pinning name img = Printf (''Pinning %s(%s)'' @ [CHR 0x0A]) [name, img]"

text \<open>
  \<^verbatim>\<open>for name, obj := range services\<close>: the body is run on each service in turn; the
  first body that does not return \<^verbatim>\<open>nil\<close> ends the loop.  The body may replace the
  service's own record (the inner map is shared with the caller's structure).
\<close>
fun range_services ::
  "(string \<Rightarrow> val \<Rightarrow> outcome \<times> val \<times> print list) \<Rightarrow> (string \<times> val) list
     \<Rightarrow> outcome \<times> (string \<times> val) list \<times> print list" where
  "range_services body [] = (Returned None, [], [])"
| "range_services body ((name, obj) # rest) =
     (case body name obj of
        (Returned None, obj', out) \<Rightarrow>
          (case range_services body rest of
             (r, rest', out') \<Rightarrow> (r, (name, obj') # rest', out @ out'))
      | (r, obj', out) \<Rightarrow> (r, (name, obj') # rest, out))"

subsection \<open>Engine inspection on the untyped service map (\<^verbatim>\<open>part_003\<close>)\<close>

definition pin_part003 :: "collaborators \<Rightarrow> string \<Rightarrow> val \<Rightarrow> outcome \<times> val \<times> print list" where
  "pin_part003 cli name obj =
     (case obj of
        VMap svc \<Rightarrow>
          (case map_of svc ''image'' of
             None \<Rightarrow> (Returned (Some (MissingImage name)), obj, [])
           | Some (VString img) \<Rightarrow>
               (case ParseNormalizedNamed cli img of
                  Inl e \<Rightarrow> (Returned (Some (Upstream e)), obj, [print_pinning name img])
                | Inr named \<Rightarrow>
                    (case DistributionInspect cli img of
                       Inl e \<Rightarrow>
                         (Returned (Some (Upstream e)), obj,
                          [print_pinning name img, Println ['''']])
                     | Inr (d, platforms) \<Rightarrow>
                         (Returned None,
                          VMap (AList.update ''image'' (VString (pinned_image named d)) svc),
                          [print_pinning name img, Printf ''  | '' []]
                          @ print_platforms platforms
                          @ [print_pinned (pinned_image named d)])))
           | Some _ \<Rightarrow> (Returned (Some (InvalidImage name)), obj, []))
      | _ \<Rightarrow> (Returned (Some (InvalidFormat name)), obj, []))"

subsection \<open>Registry lookup (\<^verbatim>\<open>part_002\<close> and \<^verbatim>\<open>part_001\<close>)\<close>

text \<open>
  From \<^verbatim>\<open>repo.Tags(ctx).Get\<close> to the assignment.  None of the three errors is looked
  at: the digest is whatever came back with the first call, a nil manifest service is
  called all the same, and the manifest is whatever came back with the third call.
\<close>
definition lookup_and_pin ::
  "repository \<Rightarrow> reference \<Rightarrow> string \<Rightarrow> (string \<times> val) list \<Rightarrow> val \<Rightarrow> print list
     \<Rightarrow> outcome \<times> val \<times> print list" where
  "lookup_and_pin repo named tag svc obj out =
     (case TagsGet repo tag of
        (desc, err1) \<Rightarrow>
          (case Manifests repo of
             (None, err2) \<Rightarrow> (Panicked NilDereference, obj, out)
           | (Some mansvc_Get, err2) \<Rightarrow>
               (case mansvc_Get desc of
                  (DeserializedManifestList ms, err3) \<Rightarrow>
                    (Returned None,
                     VMap (AList.update ''image'' (VString (pinned_image named desc)) svc),
                     out @ [Printf ''  | '' []] @ print_platforms ms
                         @ [print_pinned (pinned_image named desc)])
                | (DeserializedManifest, err3) \<Rightarrow>
                    (Returned None,
                     VMap (AList.update ''image'' (VString (pinned_image named desc)) svc),
                     out @ [print_pinned (pinned_image named desc)])
                | (mani, err3) \<Rightarrow> (Returned (Some (UnexpectedManifest mani)), obj, out))))"

definition pin_part002 :: "collaborators \<Rightarrow> string \<Rightarrow> val \<Rightarrow> outcome \<times> val \<times> print list" where
  "pin_part002 regc name obj =
     (case obj of
        VMap svc \<Rightarrow>
          (case map_of svc ''image'' of
             None \<Rightarrow> (Returned (Some (MissingImage name)), obj, [])
           | Some (VString img) \<Rightarrow>
               (case ParseNormalizedNamed regc img of
                  Inl e \<Rightarrow> (Returned (Some (Upstream e)), obj, [print_pinning name img])
                | Inr named \<Rightarrow>
                    (case GetRepository regc named of
                       Inl e \<Rightarrow> (Returned (Some (Upstream e)), obj, [print_pinning name img])
                     | Inr repo \<Rightarrow>
                         (case ref_tag named of
                            None \<Rightarrow> (Panicked FailedTypeAssertion, obj, [print_pinning name img])
                          | Some tag \<Rightarrow>
                              lookup_and_pin repo named tag svc obj [print_pinning name img])))
           | Some _ \<Rightarrow> (Returned (Some (InvalidImage name)), obj, []))
      | _ \<Rightarrow> (Returned (Some (InvalidFormat name)), obj, []))"

text \<open>
  \<^verbatim>\<open>strings.SplitAfterN(s, "-", 2)\<close>: the text up to and including the first dash and
  the rest, or the text alone when it has no dash.
\<close>
definition SplitAfterN2 :: "string \<Rightarrow> string list" where
  "SplitAfterN2 s =
     (if CHR ''-'' \<in> set s
      then [takeWhile (\<lambda>c. c \<noteq> CHR ''-'') s @ ''-'', tl (dropWhile (\<lambda>c. c \<noteq> CHR ''-'') s)]
      else [s])"

text \<open>
  Lines 43 to 52 of \<^verbatim>\<open>part_001\<close>: an image that starts with a dollar sign is a variable
  with a default value, and the default value is the image.  The bytes at the
  positions 0, 1 and \<open>len - 1\<close> are read without a check of the length, and so is the
  slice that strips the closing brace.
\<close>
definition variable_default :: "string \<Rightarrow> outcome + string" where
  "variable_default img =
     (if length img \<le> 0 then Inl (Panicked IndexOutOfRange)
      else if img ! 0 = CHR ''$'' then
        (if length img \<le> 1 then Inl (Panicked IndexOutOfRange)
         else if img ! 1 \<noteq> CHR ''{'' \<or> img ! (length img - 1) \<noteq> CHR ''}''
           then Inl (Returned (Some (NotVariableDefault img)))
         else (case SplitAfterN2 img of
                 [p0, p1] \<Rightarrow>
                   (if length p1 < 1 then Inl (Panicked IndexOutOfRange)
                    else Inr (take (length p1 - 1) p1))
               | _ \<Rightarrow> Inl (Returned (Some (NoDefaultValue img)))))
      else Inr img)"

definition pin_part001 :: "collaborators \<Rightarrow> string \<Rightarrow> val \<Rightarrow> outcome \<times> val \<times> print list" where
  "pin_part001 regc name obj =
     (case obj of
        VMap svc \<Rightarrow>
          (case map_of svc ''image'' of
             None \<Rightarrow> (Returned (Some (MissingImage name)), obj, [])
           | Some (VString image0) \<Rightarrow>
               (case variable_default image0 of
                  Inl stop \<Rightarrow> (stop, obj, [])
                | Inr img \<Rightarrow>
                    (case ParseNormalizedNamed regc img of
                       Inl e \<Rightarrow> (Returned (Some (Upstream e)), obj, [print_pinning name img])
                     | Inr named \<Rightarrow>
                         (case GetRepository regc named of
                            Inl e \<Rightarrow>
                              (Returned (Some (Upstream e)), obj, [print_pinning name img])
                          | Inr repo \<Rightarrow>
                              (case ref_tag named of
                                 None \<Rightarrow>
                                   (Returned (Some (MustBeTagged img)), obj,
                                    [print_pinning name img])
                               | Some tag \<Rightarrow>
                                   lookup_and_pin repo named tag svc obj
                                     [print_pinning name img]))))
           | Some _ \<Rightarrow> (Returned (Some (InvalidImage name)), obj, []))
      | _ \<Rightarrow> (Returned (Some (InvalidFormat name)), obj, []))"

subsection \<open>The loop of the three revisions on the untyped service map\<close>

datatype revision = Part001 | Part002 | Part003

fun pin_service ::
  "revision \<Rightarrow> collaborators \<Rightarrow> string \<Rightarrow> val \<Rightarrow> outcome \<times> val \<times> print list" where
  "pin_service Part001 = pin_part001"
| "pin_service Part002 = pin_part002"
| "pin_service Part003 = pin_part003"

definition PinServiceImages ::
  "revision \<Rightarrow> collaborators \<Rightarrow> (string \<times> val) list
     \<Rightarrow> outcome \<times> (string \<times> val) list \<times> print list" where
  "PinServiceImages revision regc services = range_services (pin_service revision regc) services"

subsection \<open>Engine inspection on the typed configuration (\<^verbatim>\<open>publish.go\<close>)\<close>

text \<open>
  \<^verbatim>\<open>for i := range config.Services\<close>: the first service of that name gets the pinned
  image, then \<^verbatim>\<open>break\<close>.
\<close>
fun update_image :: "string \<Rightarrow> string \<Rightarrow> ServiceConfig list \<Rightarrow> ServiceConfig list" where
  "update_image n pinned [] = []"
| "update_image n pinned (s # ss) =
     (if Name s = n then s\<lparr>Image := pinned\<rparr> # ss else s # update_image n pinned ss)"

text \<open>The callback given to \<^verbatim>\<open>config.WithServices\<close>; \<open>service\<close> is the callback's copy.\<close>
definition pin_publish ::
  "collaborators \<Rightarrow> ServiceConfig list \<Rightarrow> ServiceConfig
     \<Rightarrow> outcome \<times> ServiceConfig list \<times> print list" where
  "pin_publish cli services service =
     (case ParseNormalizedNamed cli (Image service) of
        Inl e \<Rightarrow>
          (Returned (Some (Upstream e)), services,
           [print_pinning (Name service) (Image service)])
      | Inr named \<Rightarrow>
          (case DistributionInspect cli (Image service) of
             Inl e \<Rightarrow>
               (Returned (Some (Upstream e)), services,
                [print_pinning (Name service) (Image service), Println ['''']])
           | Inr (d, platforms) \<Rightarrow>
               (Returned None,
                update_image (Name service) (pinned_image named d) services,
                [print_pinning (Name service) (Image service), Printf ''  | '' []]
                @ print_platforms platforms
                @ [print_pinned (pinned_image named d)])))"

text \<open>
  \<^verbatim>\<open>WithServices\<close> belongs to the compose library: it is the list of services it
  hands to the callback, in its order, and the error it ends with when no callback
  failed.  The first callback that fails ends the visit with its error.
\<close>
fun run_callbacks ::
  "(ServiceConfig list \<Rightarrow> ServiceConfig \<Rightarrow> outcome \<times> ServiceConfig list \<times> print list)
     \<Rightarrow> ServiceConfig list \<Rightarrow> ServiceConfig list
     \<Rightarrow> outcome \<times> ServiceConfig list \<times> print list" where
  "run_callbacks fn [] services = (Returned None, services, [])"
| "run_callbacks fn (v # vs) services =
     (case fn services v of
        (Returned None, services', out) \<Rightarrow>
          (case run_callbacks fn vs services' of
             (r, services'', out') \<Rightarrow> (r, services'', out @ out'))
      | (r, services', out) \<Rightarrow> (r, services', out))"

definition PinServiceImages_publish ::
  "collaborators \<Rightarrow> ServiceConfig list \<Rightarrow> outcome \<times> ServiceConfig list \<times> print list" where
  "PinServiceImages_publish cli services =
     (case WithServices cli services of
        (visits, err) \<Rightarrow>
          (case run_callbacks (pin_publish cli) visits services of
             (Returned None, services', out) \<Rightarrow>
               (Returned (map_option Upstream err), services', out)
           | (r, services', out) \<Rightarrow> (r, services', out)))"

section \<open>createTgz\<close>

subsection \<open>The file system and the archive writer\<close>

text \<open>The kinds of file that \<^verbatim>\<open>os.FileMode\<close> and \<^verbatim>\<open>tar.FileInfoHeader\<close> tell apart.\<close>
datatype FileMode =
  ModeDir | ModeRegular | ModeSymlink | ModeDevice | ModeNamedPipe | ModeSocket

record FileInfo =
  fi_Name :: string
  fi_Mode :: FileMode
  fi_Size :: nat

text \<open>One call of the function given to \<^verbatim>\<open>filepath.Walk\<close>: \<^verbatim>\<open>(file, fi, err)\<close>.\<close>
record visit =
  v_file :: string
  v_fi :: FileInfo
  v_err :: "string option"

text \<open>
  The state of the directory as the code gets to see it:
  \<^item> \<open>ignore_file\<close>: the content of \<^verbatim>\<open>.composeappignores\<close> in the directory, \<open>None\<close> when
    \<^verbatim>\<open>os.Open\<close> fails;
  \<^item> \<open>ReadAll\<close>: \<^verbatim>\<open>dockerignore.ReadAll\<close>, the patterns of a content; the nil slice
    and the empty list are the same (the reader returns nil when it has found no
    pattern);
  \<^item> \<open>Match\<close>: \<^verbatim>\<open>filepath.Match\<close>, with its result and its error;
  \<^item> \<open>Walk\<close>: the calls \<^verbatim>\<open>filepath.Walk\<close> makes for a root, in its order;
  \<^item> \<open>Readlink\<close> and \<open>Open\<close>: \<^verbatim>\<open>os.Readlink\<close>, and \<^verbatim>\<open>os.Open\<close> with the bytes that
    \<^verbatim>\<open>io.Copy\<close> reads.
\<close>
record filesystem =
  ignore_file :: "bytes option"
  ReadAll :: "bytes \<Rightarrow> string list"
  Match :: "string \<Rightarrow> string \<Rightarrow> bool \<times> string option"
  Walk :: "string \<Rightarrow> visit list"
  Readlink :: "string \<Rightarrow> string + string"
  Open :: "string \<Rightarrow> string + bytes"

datatype Typeflag = TypeReg | TypeDir | TypeSymlink | TypeDevice | TypeFifo

record Header =
  hdr_Name :: string
  hdr_Size :: nat
  hdr_Typeflag :: Typeflag
  hdr_Linkname :: string

text \<open>
  \<^verbatim>\<open>tar.FileInfoHeader(fi, link)\<close>: the size is taken for a regular file only, the
  link for a symbolic link only, and a socket is refused.
\<close>
definition FileInfoHeader :: "FileInfo \<Rightarrow> string \<Rightarrow> string + Header" where
  "FileInfoHeader info link =
     (case fi_Mode info of
        ModeRegular \<Rightarrow>
          Inr \<lparr>hdr_Name = fi_Name info, hdr_Size = fi_Size info,
               hdr_Typeflag = TypeReg, hdr_Linkname = []\<rparr>
      | ModeDir \<Rightarrow>
          Inr \<lparr>hdr_Name = fi_Name info @ ''/'', hdr_Size = 0,
               hdr_Typeflag = TypeDir, hdr_Linkname = []\<rparr>
      | ModeSymlink \<Rightarrow>
          Inr \<lparr>hdr_Name = fi_Name info, hdr_Size = 0,
               hdr_Typeflag = TypeSymlink, hdr_Linkname = link\<rparr>
      | ModeDevice \<Rightarrow>
          Inr \<lparr>hdr_Name = fi_Name info, hdr_Size = 0,
               hdr_Typeflag = TypeDevice, hdr_Linkname = []\<rparr>
      | ModeNamedPipe \<Rightarrow>
          Inr \<lparr>hdr_Name = fi_Name info, hdr_Size = 0,
               hdr_Typeflag = TypeFifo, hdr_Linkname = []\<rparr>
      | ModeSocket \<Rightarrow> Inl ''archive/tar: sockets not supported'')"

text \<open>
  The archive is the list of its entries, each the header as it was written and the
  bytes the writer took for it.  The writer knows how many bytes the entry it is
  writing may still take (\<open>nb\<close>): the size of the header for a regular file, nothing
  for any other type.
\<close>
record entry =
  header :: Header
  data :: bytes

record Writer =
  entries :: "entry list"
  nb :: nat

text \<open>
  \<^verbatim>\<open>tw.WriteHeader\<close> refuses a new entry while the last one is short of bytes.  A header
  that the archive format cannot hold is refused by the library as well; that case is
  not part of the model.
\<close>
definition WriteHeader :: "Writer \<Rightarrow> Header \<Rightarrow> string + Writer" where
  "WriteHeader w hdr =
     (if 0 < nb w then Inl ''archive/tar: missed writing bytes''
      else Inr \<lparr>entries = entries w @ [\<lparr>header = hdr, data = []\<rparr>],
                nb = (if hdr_Typeflag hdr = TypeReg then hdr_Size hdr else 0)\<rparr>)"

text \<open>
  \<^verbatim>\<open>tw.Write\<close> (also under \<^verbatim>\<open>io.Copy\<close>): the entry takes what it may still take;
  the flag is \<^verbatim>\<open>ErrWriteTooLong\<close>, raised when there were more bytes than that.
\<close>
definition Write :: "Writer \<Rightarrow> bytes \<Rightarrow> Writer \<times> bool" where
  "Write w b =
     (case rev (entries w) of
        [] \<Rightarrow> (w, b \<noteq> [])
      | e # before \<Rightarrow>
          (\<lparr>entries = rev before @ [e\<lparr>data := data e @ take (nb w) b\<rparr>],
            nb = nb w - length b\<rparr>,
           nb w < length b))"

subsection \<open>Names in the archive and ignore patterns\<close>

text \<open>\<^verbatim>\<open>strings.Replace(s, old, "", -1)\<close>: every occurrence of \<open>old\<close> is taken out, from the left.\<close>
function Replace_by_nothing :: "string \<Rightarrow> string \<Rightarrow> string" where
  "Replace_by_nothing old [] = []"
| "Replace_by_nothing old (c # s) =
     (if old \<noteq> [] \<and> prefix old (c # s)
      then Replace_by_nothing old (drop (length old) (c # s))
      else c # Replace_by_nothing old s)"
  by pat_completeness auto
termination
  by (relation "measure (\<lambda>(old, s). length s)") (auto simp: neq_Nil_conv)

definition TrimPrefix :: "string \<Rightarrow> string \<Rightarrow> string" where
  "TrimPrefix s p = (if prefix p s then drop (length p) s else s)"

text \<open>
  \<^verbatim>\<open>strings.TrimPrefix(strings.Replace(file, appDir, "", -1), string(filepath.Separator))\<close>
\<close>
definition header_name :: "string \<Rightarrow> string \<Rightarrow> string" where
  "header_name appDir f = TrimPrefix (Replace_by_nothing appDir f) ''/''"

text \<open>\<^verbatim>\<open>getIgnores\<close>: the patterns of the ignore file, and its own name after them if there are any.\<close>
definition getIgnores :: "filesystem \<Rightarrow> string list" where
  "getIgnores fs =
     (case ignore_file fs of
        None \<Rightarrow> []
      | Some content \<Rightarrow>
          (let ignores = ReadAll fs content
           in if ignores \<noteq> [] then ignores @ [''.composeappignores''] else ignores))"

text \<open>The loop over the patterns: the first pattern that matches without an error.\<close>
fun first_ignore ::
  "(string \<Rightarrow> string \<Rightarrow> bool \<times> string option) \<Rightarrow> string list \<Rightarrow> string \<Rightarrow> string option" where
  "first_ignore m [] name = None"
| "first_ignore m (ignore # rest) name =
     (case m ignore name of
        (match, err) \<Rightarrow> if err = None \<and> match then Some ignore else first_ignore m rest name)"

subsection \<open>The walk\<close>

record walk_state =
  tw :: Writer
  warned :: "string set"
  printed :: "print list"

text \<open>\<^verbatim>\<open>filepath.Walk\<close> stops at the first call that returns an error.\<close>
fun walk_visits ::
  "(walk_state \<Rightarrow> visit \<Rightarrow> error option \<times> walk_state) \<Rightarrow> visit list \<Rightarrow> walk_state
     \<Rightarrow> error option \<times> walk_state" where
  "walk_visits fn [] st = (None, st)"
| "walk_visits fn (v # vs) st =
     (case fn st v of
        (None, st') \<Rightarrow> walk_visits fn vs st'
      | (Some e, st') \<Rightarrow> (Some e, st'))"

text \<open>
  The part after \<^verbatim>\<open>tw.WriteHeader\<close> in \<^verbatim>\<open>part_001\<close>: the descriptor for a file named
  \<^verbatim>\<open>docker-compose.yml\<close> (the result of that \<^verbatim>\<open>tw.Write\<close> is dropped), the bytes of any
  other regular file, nothing else.
\<close>
definition write_content_part001 ::
  "filesystem \<Rightarrow> bytes \<Rightarrow> visit \<Rightarrow> walk_state \<Rightarrow> Writer \<Rightarrow> error option \<times> walk_state" where
  "write_content_part001 fs composeContent v st w =
     (if fi_Name (v_fi v) = ''docker-compose.yml''
        then (None, st\<lparr>tw := fst (Write w composeContent)\<rparr>)
      else if fi_Mode (v_fi v) = ModeRegular then
        (case Open fs (v_file v) of
           Inl e \<Rightarrow> (Some (Upstream e), st\<lparr>tw := w\<rparr>)
         | Inr content \<Rightarrow>
             (case Write w content of
                (w', too_long) \<Rightarrow>
                  if too_long then (Some (Upstream ''archive/tar: write too long''), st\<lparr>tw := w'\<rparr>)
                  else (None, st\<lparr>tw := w'\<rparr>)))
      else (None, st\<lparr>tw := w\<rparr>))"

text \<open>The function given to \<^verbatim>\<open>filepath.Walk\<close> in \<^verbatim>\<open>part_001\<close>.\<close>
definition walkFn_part001 ::
  "filesystem \<Rightarrow> bytes \<Rightarrow> string \<Rightarrow> string list \<Rightarrow> walk_state \<Rightarrow> visit
     \<Rightarrow> error option \<times> walk_state" where
  "walkFn_part001 fs composeContent appDir ignores st v =
     (case v_err v of
        Some e \<Rightarrow> (Some (CantStat appDir e), st)
      | None \<Rightarrow>
          if fi_Mode (v_fi v) = ModeDir then (None, st)
          else
            (case FileInfoHeader (v_fi v) (fi_Name (v_fi v)) of
               Inl e \<Rightarrow> (Some (Upstream e), st)
             | Inr header0 \<Rightarrow>
                 (let header1 =
                        (if fi_Name (v_fi v) = ''docker-compose.yml''
                         then header0\<lparr>hdr_Size := length composeContent\<rparr> else header0);
                      header2 = header1\<lparr>hdr_Name := header_name appDir (v_file v)\<rparr>
                  in case first_ignore (Match fs) ignores (hdr_Name header2) of
                       Some ignore \<Rightarrow>
                         (None,
                          st\<lparr>warned := insert ignore (warned st),
                             printed := printed st
                               @ (if ignore \<in> warned st then []
                                  else [Println [''  |-> ignoring: '', ignore]])\<rparr>)
                     | None \<Rightarrow>
                         if fi_Mode (v_fi v) \<noteq> ModeRegular then
                           (if fi_Mode (v_fi v) = ModeSymlink then
                              (case Readlink fs (hdr_Name header2) of
                                 Inl e \<Rightarrow> (Some (CantFindSymlink e), st)
                               | Inr link \<Rightarrow>
                                   (case WriteHeader (tw st) (header2\<lparr>hdr_Linkname := link\<rparr>) of
                                      Inl e \<Rightarrow> (Some (Upstream e), st)
                                    | Inr w \<Rightarrow> write_content_part001 fs composeContent v st w))
                            else (Some (NonRegular (hdr_Name header2)), st))
                         else
                           (case WriteHeader (tw st) header2 of
                              Inl e \<Rightarrow> (Some (Upstream e), st)
                            | Inr w \<Rightarrow> write_content_part001 fs composeContent v st w))))"

definition new_walk :: walk_state where
  "new_walk = \<lparr>tw = \<lparr>entries = [], nb = 0\<rparr>, warned = {}, printed = []\<rparr>"

text \<open>
  The result is the archive (its entries; the tar and gzip encodings are left out) or
  the error of the walk.  The errors of \<^verbatim>\<open>tw.Close\<close> and \<^verbatim>\<open>gzw.Close\<close> are dropped by
  the code.
\<close>
definition createTgz_part001 ::
  "filesystem \<Rightarrow> bytes \<Rightarrow> string \<Rightarrow> (error + entry list) \<times> print list" where
  "createTgz_part001 fs composeContent appDir =
     (case walk_visits (walkFn_part001 fs composeContent appDir (getIgnores fs))
             (Walk fs appDir) new_walk of
        (Some e, st) \<Rightarrow> (Inl e, printed st)
      | (None, st) \<Rightarrow> (Inr (entries (tw st)), printed st))"

text \<open>
  The function given to \<^verbatim>\<open>filepath.Walk\<close> in \<^verbatim>\<open>publish.go\<close>, \<^verbatim>\<open>part_002\<close> and
  \<^verbatim>\<open>part_003\<close>: no ignore file, and nothing but regular files.
\<close>
definition walkFn_publish ::
  "filesystem \<Rightarrow> bytes \<Rightarrow> string \<Rightarrow> walk_state \<Rightarrow> visit \<Rightarrow> error option \<times> walk_state" where
  "walkFn_publish fs composeContent bundleDir st v =
     (case v_err v of
        Some e \<Rightarrow> (Some (CantStat bundleDir e), st)
      | None \<Rightarrow>
          if fi_Mode (v_fi v) = ModeDir then (None, st)
          else if fi_Mode (v_fi v) \<noteq> ModeRegular then (Some (NonRegular (fi_Name (v_fi v))), st)
          else
            (case FileInfoHeader (v_fi v) (fi_Name (v_fi v)) of
               Inl e \<Rightarrow> (Some (Upstream e), st)
             | Inr header0 \<Rightarrow>
                 (let header1 =
                        (if fi_Name (v_fi v) = ''docker-compose.yml''
                         then header0\<lparr>hdr_Size := length composeContent\<rparr> else header0);
                      header2 = header1\<lparr>hdr_Name := header_name bundleDir (v_file v)\<rparr>
                  in case WriteHeader (tw st) header2 of
                       Inl e \<Rightarrow> (Some (Upstream e), st)
                     | Inr w \<Rightarrow>
                         if fi_Name (v_fi v) = ''docker-compose.yml''
                           then (None, st\<lparr>tw := fst (Write w composeContent)\<rparr>)
                         else
                           (case Open fs (v_file v) of
                              Inl e \<Rightarrow> (Some (Upstream e), st\<lparr>tw := w\<rparr>)
                            | Inr content \<Rightarrow>
                                (case Write w content of
                                   (w', too_long) \<Rightarrow>
                                     if too_long
                                       then (Some (Upstream ''archive/tar: write too long''),
                                             st\<lparr>tw := w'\<rparr>)
                                     else (None, st\<lparr>tw := w'\<rparr>))))))"

definition createTgz_publish :: "filesystem \<Rightarrow> bytes \<Rightarrow> string \<Rightarrow> error + entry list" where
  "createTgz_publish fs composeContent bundleDir =
     (case walk_visits (walkFn_publish fs composeContent bundleDir) (Walk fs bundleDir) new_walk of
        (Some e, st) \<Rightarrow> Inl e
      | (None, st) \<Rightarrow> Inr (entries (tw st)))"

section \<open>CreateBundle and CreateApp\<close>

text \<open>
  The manifest that \<^verbatim>\<open>ocischema.NewManifestBuilder\<close> builds: the blob appended by
  \<^verbatim>\<open>mb.AppendReference\<close> and the annotations.
\<close>
record built_manifest =
  layer :: digest
  annotations :: "(string \<times> string) list"

text \<open>
  What the repository of the target can do: \<^verbatim>\<open>repo.Blobs(ctx).Put\<close> with the media
  type and the archive, \<^verbatim>\<open>mb.Build\<close>, \<^verbatim>\<open>repo.Manifests\<close> (its error only) and
  \<^verbatim>\<open>svc.Put\<close> with the manifest and the tag.
\<close>
record target_repository =
  BlobsPut :: "string \<Rightarrow> entry list \<Rightarrow> string + digest"
  Build :: "built_manifest \<Rightarrow> string + built_manifest"
  ManifestService :: "string option"
  ManifestsPut :: "built_manifest \<Rightarrow> string \<Rightarrow> string + digest"

record 'c publishing =
  Marshal :: "'c \<Rightarrow> string + bytes"
  ParseTarget :: "string \<Rightarrow> string + reference"
  GetTargetRepository :: "reference \<Rightarrow> string + target_repository"

text \<open>\<^verbatim>\<open>reference.TagNameOnly\<close>: a reference with neither tag nor digest gets the tag \<^verbatim>\<open>latest\<close>.\<close>
definition TagNameOnly :: "reference \<Rightarrow> reference" where
  "TagNameOnly named =
     (if ref_tag named = None \<and> ref_digest named = None
      then named\<lparr>ref_tag := Some ''latest''\<rparr> else named)"

text \<open>
  The body shared by \<^verbatim>\<open>CreateBundle\<close> and \<^verbatim>\<open>CreateApp\<close>, from the archive on.  The
  revisions differ in the annotation and in the word printed with the digest of the
  blob.  After \<^verbatim>\<open>blobStore.Put\<close> the code reads \<^verbatim>\<open>if err != nil { return nil }\<close>.
\<close>
definition publish_archive ::
  "'c publishing \<Rightarrow> string \<Rightarrow> string \<Rightarrow> entry list \<Rightarrow> string \<Rightarrow> error option \<times> print list" where
  "publish_archive regc kind word buff target =
     (case ParseTarget regc target of
        Inl e \<Rightarrow> (Some (Upstream e), [])
      | Inr named \<Rightarrow>
          (let tag = (case ref_tag (TagNameOnly named) of Some t \<Rightarrow> t | None \<Rightarrow> ''latest'')
           in case GetTargetRepository regc named of
                Inl e \<Rightarrow> (Some (Upstream e), [])
              | Inr repo \<Rightarrow>
                  (case BlobsPut repo ''application/tar+gzip'' buff of
                     Inl e \<Rightarrow> (None, [])
                   | Inr desc \<Rightarrow>
                       (case Build repo \<lparr>layer = desc, annotations = [(kind, ''v1'')]\<rparr> of
                          Inl e \<Rightarrow> (Some (Upstream e), [Println [''  |-> '' @ word @ '': '', desc]])
                        | Inr manifest \<Rightarrow>
                            (case ManifestService repo of
                               Some e \<Rightarrow>
                                 (Some (Upstream e), [Println [''  |-> '' @ word @ '': '', desc]])
                             | None \<Rightarrow>
                                 (case ManifestsPut repo manifest tag of
                                    Inl e \<Rightarrow>
                                      (Some (Upstream e),
                                       [Println [''  |-> '' @ word @ '': '', desc]])
                                  | Inr d \<Rightarrow>
                                      (None,
                                       [Println [''  |-> '' @ word @ '': '', desc],
                                        Println [''  |-> manifest: '', d]])))))))"

text \<open>\<^verbatim>\<open>CreateBundle\<close> of \<^verbatim>\<open>publish.go\<close> and \<^verbatim>\<open>part_003\<close>.\<close>
definition CreateBundle ::
  "'c publishing \<Rightarrow> filesystem \<Rightarrow> 'c \<Rightarrow> string \<Rightarrow> error option \<times> print list" where
  "CreateBundle regc fs config target =
     (case Marshal regc config of
        Inl e \<Rightarrow> (Some (Upstream e), [])
      | Inr pinned \<Rightarrow>
          (case createTgz_publish fs pinned ''./'' of
             Inl e \<Rightarrow> (Some e, [])
           | Inr buff \<Rightarrow> publish_archive regc ''compose-bundle'' ''bundle'' buff target))"

text \<open>\<^verbatim>\<open>CreateApp\<close> of \<^verbatim>\<open>part_001\<close>; \<^verbatim>\<open>part_002\<close> has it with the older \<^verbatim>\<open>createTgz\<close>.\<close>
definition CreateApp ::
  "'c publishing \<Rightarrow> filesystem \<Rightarrow> 'c \<Rightarrow> string \<Rightarrow> error option \<times> print list" where
  "CreateApp regc fs config target =
     (case Marshal regc config of
        Inl e \<Rightarrow> (Some (Upstream e), [])
      | Inr pinned \<Rightarrow>
          (case createTgz_part001 fs pinned ''./'' of
             (Inl e, out) \<Rightarrow> (Some e, out)
           | (Inr buff, out) \<Rightarrow>
               (case publish_archive regc ''compose-app'' ''app'' buff target of
                  (r, out') \<Rightarrow> (r, out @ out'))))"

section \<open>Reading the claims\<close>

text \<open>
  The components of a reference written in canonical form,
  \<^verbatim>\<open>domain "/" path [ ":" tag ] [ "@" digest ]\<close>: the digest is what follows the
  first \<^verbatim>\<open>@\<close>, the domain what precedes the first slash, and the tag what follows
  the first colon after the domain.
\<close>
definition reference_components :: "string \<Rightarrow> reference" where
  "reference_components s =
     (let name_tag = takeWhile (\<lambda>c. c \<noteq> CHR ''@'') s;
          at_digest = dropWhile (\<lambda>c. c \<noteq> CHR ''@'') s;
          remainder = tl (dropWhile (\<lambda>c. c \<noteq> CHR ''/'') name_tag);
          colon_tag = dropWhile (\<lambda>c. c \<noteq> CHR '':'') remainder
      in \<lparr>ref_domain = takeWhile (\<lambda>c. c \<noteq> CHR ''/'') name_tag,
          ref_path = takeWhile (\<lambda>c. c \<noteq> CHR '':'') remainder,
          ref_tag = (if colon_tag = [] then None else Some (tl colon_tag)),
          ref_digest = (if at_digest = [] then None else Some (tl at_digest))\<rparr>)"

text \<open>
  A well-formed tagged reference: it has a tag, its domain has neither a slash nor
  an \<^verbatim>\<open>@\<close>, and its path has neither a colon nor an \<^verbatim>\<open>@\<close>.
\<close>
definition well_formed_tagged :: "reference \<Rightarrow> bool" where
  "well_formed_tagged named \<longleftrightarrow>
     ref_tag named \<noteq> None
     \<and> CHR ''/'' \<notin> set (ref_domain named) \<and> CHR ''@'' \<notin> set (ref_domain named)
     \<and> CHR '':'' \<notin> set (ref_path named) \<and> CHR ''@'' \<notin> set (ref_path named)"

text \<open>
  The platform list in the words of the specification: one entry for each platform,
  in order, the architecture with the variant right after it when the architecture is
  \<^verbatim>\<open>arm\<close>, the entries joined by a comma and a blank.
\<close>
definition spec_platform_entry :: "platform \<Rightarrow> string" where
  "spec_platform_entry p =
     (if Architecture p = ''arm'' then ''arm'' @ Variant p else Architecture p)"

fun spec_join :: "string list \<Rightarrow> string" where
  "spec_join [] = []"
| "spec_join [x] = x"
| "spec_join (x # y # zs) = x @ '', '' @ spec_join (y # zs)"

definition spec_platform_list :: "platform list \<Rightarrow> string" where
  "spec_platform_list ms = spec_join (map spec_platform_entry ms)"

text \<open>No text of the platform list that reaches \<^verbatim>\<open>Printf\<close> as a format has a \<^verbatim>\<open>%\<close>.\<close>
definition plain_platforms :: "platform list \<Rightarrow> bool" where
  "plain_platforms ms \<longleftrightarrow>
     list_all (\<lambda>p. CHR ''%'' \<notin> set (Architecture p)
                 \<and> (Architecture p = ''arm'' \<longrightarrow> CHR ''%'' \<notin> set (Variant p))) ms"

text \<open>The text that a call hands to \<^verbatim>\<open>Printf\<close> as its format.\<close>
fun format_of :: "print \<Rightarrow> string" where
  "format_of (Printf fmt args) = fmt"
| "format_of (Println args) = []"

section \<open>Example data\<close>

definition nginx_stable :: reference where
  "nginx_stable =
     \<lparr>ref_domain = ''docker.io'', ref_path = ''library/nginx'',
      ref_tag = Some ''stable'', ref_digest = None\<rparr>"

definition nginx_untagged :: reference where
  "nginx_untagged =
     \<lparr>ref_domain = ''docker.io'', ref_path = ''library/nginx'',
      ref_tag = None, ref_digest = None\<rparr>"

definition amd64 :: platform where
  "amd64 = \<lparr>Architecture = ''amd64'', Variant = []\<rparr>"

definition arm_v7 :: platform where
  "arm_v7 = \<lparr>Architecture = ''arm'', Variant = ''v7''\<rparr>"

text \<open>A registry that knows \<^verbatim>\<open>nginx:stable\<close> as a manifest list for two platforms.\<close>
definition good_repository :: repository where
  "good_repository =
     \<lparr>TagsGet = (\<lambda>tag. (''sha256:aaa'', None)),
      Manifests = (Some (\<lambda>d. (DeserializedManifestList [amd64, arm_v7], None)), None)\<rparr>"

text \<open>
  A registry where the tag is missing: the lookup of the tag returns the zero
  descriptor and an error, and so does the lookup of the manifest for the empty digest.
\<close>
definition tag_missing_repository :: repository where
  "tag_missing_repository =
     \<lparr>TagsGet = (\<lambda>tag. ([], Some ''manifest unknown'')),
      Manifests = (Some (\<lambda>d. (NilManifest, Some ''invalid digest format'')), None)\<rparr>"

text \<open>A repository whose manifest service cannot be had: nil and an error.\<close>
definition no_manifests_repository :: repository where
  "no_manifests_repository =
     \<lparr>TagsGet = (\<lambda>tag. (''sha256:aaa'', None)),
      Manifests = (None, Some ''unauthorized'')\<rparr>"

definition parse_nginx :: "string \<Rightarrow> string + reference" where
  "parse_nginx s =
     (if s = ''nginx:stable'' then Inr nginx_stable
      else if s = ''nginx'' then Inr nginx_untagged
      else Inl ''invalid reference format'')"

definition world :: "repository \<Rightarrow> collaborators" where
  "world repo =
     \<lparr>ParseNormalizedNamed = parse_nginx,
      GetRepository = (\<lambda>named. Inr repo),
      DistributionInspect = (\<lambda>img. Inr (''sha256:aaa'', [amd64, arm_v7])),
      WithServices = (\<lambda>services. (services, None))\<rparr>"

definition offline :: collaborators where
  "offline =
     \<lparr>ParseNormalizedNamed = parse_nginx,
      GetRepository = (\<lambda>named. Inl ''connection refused''),
      DistributionInspect = (\<lambda>img. Inl ''connection refused''),
      WithServices = (\<lambda>services. (services, None))\<rparr>"

definition web :: "string \<Rightarrow> string \<times> val" where
  "web img = (''web'', VMap [(''image'', VString img)])"

definition db_no_image :: "string \<times> val" where
  "db_no_image = (''db'', VMap [(''restart'', VString ''always'')])"

text \<open>
  A bundle directory: \<^verbatim>\<open>a.txt\<close>, a stale \<^verbatim>\<open>docker-compose.yml\<close>, and another
  \<^verbatim>\<open>docker-compose.yml\<close> in the directory \<^verbatim>\<open>sub\<close>.  Patterns match a name that is
  equal to them.
\<close>
definition regular :: "string \<Rightarrow> string \<Rightarrow> nat \<Rightarrow> visit" where
  "regular f base n =
     \<lparr>v_file = f, v_fi = \<lparr>fi_Name = base, fi_Mode = ModeRegular, fi_Size = n\<rparr>, v_err = None\<rparr>"

definition directory :: "string \<Rightarrow> string \<Rightarrow> visit" where
  "directory f base =
     \<lparr>v_file = f, v_fi = \<lparr>fi_Name = base, fi_Mode = ModeDir, fi_Size = 0\<rparr>, v_err = None\<rparr>"

definition literal_match :: "string \<Rightarrow> string \<Rightarrow> bool \<times> string option" where
  "literal_match pattern name = (pattern = name, None)"

definition bundle_dir :: "bytes option \<Rightarrow> string list \<Rightarrow> visit list \<Rightarrow> filesystem" where
  "bundle_dir ignore patterns visits =
     \<lparr>ignore_file = ignore,
      ReadAll = (\<lambda>content. patterns),
      Match = literal_match,
      Walk = (\<lambda>root. directory ''./'' ''.'' # visits),
      Readlink = (\<lambda>name. Inl ''invalid argument''),
      Open = (\<lambda>f. if f = ''a.txt'' then Inr ''hello''
                   else if f = ''.composeappignores'' then Inr (case ignore of Some c \<Rightarrow> c | None \<Rightarrow> [])
                   else Inr ''stale'')\<rparr>"

definition three_files :: "visit list" where
  "three_files =
     [regular ''a.txt'' ''a.txt'' 5,
      regular ''docker-compose.yml'' ''docker-compose.yml'' 5,
      directory ''sub'' ''sub'',
      regular ''sub/docker-compose.yml'' ''docker-compose.yml'' 5]"

text \<open>A registry for the target that takes no blob, and one that takes no manifest.\<close>
definition accepting :: target_repository where
  "accepting =
     \<lparr>BlobsPut = (\<lambda>mediaType buff. Inr ''sha256:bbb''),
      Build = (\<lambda>m. Inr m),
      ManifestService = None,
      ManifestsPut = (\<lambda>m tag. Inr ''sha256:ccc'')\<rparr>"

definition publisher :: "target_repository \<Rightarrow> unit publishing" where
  "publisher repo =
     \<lparr>Marshal = (\<lambda>config. Inr ''services: {}''),
      ParseTarget = (\<lambda>target. Inr \<lparr>ref_domain = ''example.org'', ref_path = ''app'',
                                   ref_tag = None, ref_digest = None\<rparr>),
      GetTargetRepository = (\<lambda>named. Inr repo)\<rparr>"

text \<open>
  The entry of the descriptor under a name: a regular file whose size is the length of
  the serialized descriptor and whose bytes are the serialized descriptor.
\<close>
definition descriptor_entry :: "bytes \<Rightarrow> string \<Rightarrow> entry" where
  "descriptor_entry c name =
     \<lparr>header = \<lparr>hdr_Name = name, hdr_Size = length c, hdr_Typeflag = TypeReg, hdr_Linkname = []\<rparr>,
      data = c\<rparr>"

text \<open>A service that the callback of \<^verbatim>\<open>publish.go\<close> is given.\<close>
definition web_service :: ServiceConfig where
  "web_service = \<lparr>Name = ''web'', Image = ''nginx:stable''\<rparr>"

text \<open>The target registry refuses the blob.\<close>
definition refusing_blobs :: target_repository where
  "refusing_blobs = accepting\<lparr>BlobsPut := (\<lambda>mediaType buff. Inl ''blob upload failed'')\<rparr>"

text \<open>The target registry refuses the manifest.\<close>
definition refusing_manifests :: target_repository where
  "refusing_manifests = accepting\<lparr>ManifestsPut := (\<lambda>m tag. Inl ''manifest push failed'')\<rparr>"

text \<open>A registry that knows \<^verbatim>\<open>nginx:stable\<close> as a manifest for one platform.\<close>
definition single_platform_repository :: repository where
  "single_platform_repository =
     \<lparr>TagsGet = (\<lambda>tag. (''sha256:aaa'', None)),
      Manifests = (Some (\<lambda>d. (DeserializedManifest, None)), None)\<rparr>"

text \<open>
  The directory with an ignore file that names \<^verbatim>\<open>a.txt\<close>, and the directory with an
  ignore file that is empty.
\<close>
definition ignore_visit :: "nat \<Rightarrow> visit" where
  "ignore_visit n = regular ''.composeappignores'' ''.composeappignores'' n"

definition ignoring_a_txt :: filesystem where
  "ignoring_a_txt = bundle_dir (Some ''a.txt'') [''a.txt''] (ignore_visit 5 # three_files)"

definition empty_ignore_file :: filesystem where
  "empty_ignore_file = bundle_dir (Some []) [] [ignore_visit 0]"

definition a_txt_entry :: entry where
  "a_txt_entry =
     \<lparr>header = \<lparr>hdr_Name = ''a.txt'', hdr_Size = 5, hdr_Typeflag = TypeReg, hdr_Linkname = []\<rparr>,
      data = ''hello''\<rparr>"

text \<open>
  A registry whose manifest list for \<^verbatim>\<open>nginx:stable\<close> names an architecture with a
  percent sign in it, and an engine that reports the same platforms.
\<close>
definition percent_d :: platform where
  "percent_d = \<lparr>Architecture = ''%d'', Variant = []\<rparr>"

definition percent_repository :: repository where
  "percent_repository =
     \<lparr>TagsGet = (\<lambda>tag. (''sha256:aaa'', None)),
      Manifests = (Some (\<lambda>d. (DeserializedManifestList [amd64, percent_d], None)), None)\<rparr>"

definition percent_engine :: collaborators where
  "percent_engine =
     (world percent_repository)
       \<lparr>DistributionInspect := (\<lambda>img. Inr (''sha256:aaa'', [amd64, percent_d]))\<rparr>"

section \<open>The loop over the services\<close>

lemma range_services_append:
  "range_services body pre = (Returned None, pre', out) \<Longrightarrow>
   range_services body (pre @ rest) =
     (case range_services body rest of (r, rest', out') \<Rightarrow> (r, pre' @ rest', out @ out'))"
proof (induction pre arbitrary: pre' out)
  case Nil
  then show ?case by (simp split: prod.splits)
next
  case (Cons a pre)
  obtain name obj where a: "a = (name, obj)" by (cases a)
  obtain r obj' o1 where b: "body name obj = (r, obj', o1)" by (cases "body name obj")
  show ?case
  proof (cases "r = Returned None")
    case True
    obtain r2 pre2 o2 where rs: "range_services body pre = (r2, pre2, o2)"
      by (cases "range_services body pre")
    from Cons.prems a b True rs
    have "r2 = Returned None" "pre' = (name, obj') # pre2" "out = o1 @ o2"
      by simp_all
    with Cons.IH[of pre2 o2] rs a b True show ?thesis
      by (simp split: prod.splits)
  next
    case False
    with Cons.prems a b show ?thesis
      by (simp split: outcome.splits option.splits)
  qed
qed

lemma range_services_fails:
  "body name obj = (r, obj', out) \<Longrightarrow> r \<noteq> Returned None \<Longrightarrow>
   range_services body ((name, obj) # post) = (r, (name, obj') # post, out)"
  by (cases r) (auto split: option.splits)

text \<open>A run that returns nil has run the body on every service, and every body returned nil.\<close>
lemma range_services_all:
  "range_services body services = (Returned None, services', out) \<Longrightarrow>
   list_all2 (\<lambda>old new. fst new = fst old
        \<and> (\<exists>out1. body (fst old) (snd old) = (Returned None, snd new, out1))) services services'"
proof (induction services arbitrary: services' out)
  case Nil
  then show ?case by simp
next
  case (Cons a services)
  obtain name obj where a: "a = (name, obj)" by (cases a)
  obtain r obj' o1 where b: "body name obj = (r, obj', o1)" by (cases "body name obj")
  obtain r2 pre2 o2 where rs: "range_services body services = (r2, pre2, o2)"
    by (cases "range_services body services")
  from Cons.prems a b have r: "r = Returned None"
    by (auto split: outcome.splits option.splits prod.splits)
  with Cons.prems a b rs have "r2 = Returned None" "services' = (name, obj') # pre2"
    by simp_all
  with Cons.IH[of pre2 o2] rs a b r show ?case by simp
qed

lemma list_all2_map_of:
  "list_all2 (\<lambda>old new. fst new = fst old \<and> P (fst old) (snd old) (snd new)) xs ys \<Longrightarrow>
   map_of xs k = Some v \<Longrightarrow> \<exists>v'. map_of ys k = Some v' \<and> P k v v'"
  by (induction xs ys rule: list_all2_induct) (auto split: if_splits)

lemma variable_default_stops: "variable_default img = Inl r \<Longrightarrow> r \<noteq> Returned None"
  by (auto simp: variable_default_def split: if_splits list.splits)

lemma variable_default_empty: "variable_default [] = Inl (Panicked IndexOutOfRange)"
  by (simp add: variable_default_def)

lemma lookup_and_pin_unchanged:
  "lookup_and_pin repo named tag svc obj out0 = (r, obj', out) \<Longrightarrow> r \<noteq> Returned None \<Longrightarrow>
   obj' = obj"
  by (auto simp: lookup_and_pin_def split: prod.splits option.splits manifest.splits)

text \<open>A body that does not return nil has not touched the record of its service.\<close>
lemma pin_service_unchanged:
  "pin_service rv c name obj = (r, obj', out) \<Longrightarrow> r \<noteq> Returned None \<Longrightarrow> obj' = obj"
  by (cases rv)
     (auto simp: pin_part001_def pin_part002_def pin_part003_def
           split: val.splits option.splits sum.splits prod.splits
           dest: lookup_and_pin_unchanged)

lemma lookup_and_pin_pinned:
  "lookup_and_pin repo named tag svc obj out0 = (Returned None, obj', out) \<Longrightarrow>
   obj' = VMap (AList.update ''image'' (VString (pinned_image named (fst (TagsGet repo tag)))) svc)"
  by (auto simp: lookup_and_pin_def split: prod.splits option.splits manifest.splits)

text \<open>A body that returns nil has set the image of its service to a pinned image.\<close>
lemma pin_service_pinned:
  "pin_service rv c name obj = (Returned None, obj', out) \<Longrightarrow>
   \<exists>svc named d. obj = VMap svc
      \<and> obj' = VMap (AList.update ''image'' (VString (pinned_image named d)) svc)"
  by (cases rv)
     (auto simp: pin_part001_def pin_part002_def pin_part003_def
           split: val.splits option.splits sum.splits prod.splits
           dest!: lookup_and_pin_pinned variable_default_stops)

lemma PinServiceImages_pinned:
  assumes "PinServiceImages rv c pre = (Returned None, pre', out)"
  shows "list_all2 (\<lambda>old new. fst new = fst old
           \<and> (\<exists>svc named d. snd old = VMap svc
                \<and> snd new = VMap (AList.update ''image'' (VString (pinned_image named d)) svc)))
         pre pre'"
  using range_services_all[OF assms[unfolded PinServiceImages_def]]
  by (rule list_all2_mono) (use pin_service_pinned in blast)

lemma PinServiceImages_stops:
  assumes "PinServiceImages rv c pre = (Returned None, pre', out)"
      and "pin_service rv c name obj = (r, obj', out')"
      and "r \<noteq> Returned None"
  shows "PinServiceImages rv c (pre @ (name, obj) # post)
           = (r, pre' @ (name, obj) # post, out @ out')"
proof -
  have "obj' = obj" using assms(2,3) by (rule pin_service_unchanged)
  with assms(2,3)
  have "range_services (pin_service rv c) ((name, obj) # post) = (r, (name, obj) # post, out')"
    using range_services_fails[of "pin_service rv c" name obj r obj out' post] by simp
  with range_services_append[OF assms(1)[unfolded PinServiceImages_def], of "(name, obj) # post"]
  show ?thesis
    by (simp add: PinServiceImages_def)
qed

lemma pin_good_web:
  "pin_service rv (world good_repository) ''web'' (snd (web ''nginx:stable''))
     = (Returned None, snd (web ''docker.io/library/nginx@sha256:aaa''),
        [print_pinning ''web'' ''nginx:stable'', Printf ''  | '' []]
        @ print_platforms [amd64, arm_v7]
        @ [print_pinned ''docker.io/library/nginx@sha256:aaa''])"
  by (cases rv)
     (simp_all add: pin_part001_def pin_part002_def pin_part003_def world_def
        parse_nginx_def nginx_stable_def web_def variable_default_def lookup_and_pin_def
        good_repository_def pinned_image_def)

lemma PinServiceImages_good_web:
  "PinServiceImages rv (world good_repository) [web ''nginx:stable'']
     = (Returned None, [web ''docker.io/library/nginx@sha256:aaa''],
        [print_pinning ''web'' ''nginx:stable'', Printf ''  | '' []]
        @ print_platforms [amd64, arm_v7]
        @ [print_pinned ''docker.io/library/nginx@sha256:aaa''])"
  using pin_good_web[of rv] by (simp add: PinServiceImages_def web_def)

section \<open>The pin pass stops at the first failing service\<close>

text \<open>
  Claim C7.  The services are pinned one after the other, and the pass is not atomic.
  When the services before some service have all been pinned (the pass over them
  returns nil) and the body of the loop fails at that service, with an error or with
  a panic, then the pass over the whole list ends with that failure; the services
  before the failing one keep their pinned image, \<open>domain/path@digest\<close>; the failing
  service and all services after it are as they were.  A service without an
  \<^verbatim>\<open>image\<close> and a service whose \<^verbatim>\<open>image\<close> is no string fail with an error that names
  the service.  This holds for the three revisions that loop over the service map.
\<close>
theorem pin_stops_at_failing_service:
  assumes "PinServiceImages rv c pre = (Returned None, pre', out)"
      and "pin_service rv c name obj = (r, obj', out')"
      and "r \<noteq> Returned None"
  shows "PinServiceImages rv c (pre @ (name, obj) # post)
           = (r, pre' @ (name, obj) # post, out @ out')
         \<and> list_all2 (\<lambda>old new. fst new = fst old
              \<and> (\<exists>svc named d. snd old = VMap svc
                   \<and> snd new = VMap (AList.update ''image'' (VString (pinned_image named d)) svc)))
            pre pre'
         \<and> (\<forall>svc. obj = VMap svc \<and> map_of svc ''image'' = None
               \<longrightarrow> r = Returned (Some (MissingImage name)))
         \<and> (\<forall>svc x. obj = VMap svc \<and> map_of svc ''image'' = Some x \<and> (\<forall>s. x \<noteq> VString s)
               \<longrightarrow> r = Returned (Some (InvalidImage name)))"
proof -
  have 1: "PinServiceImages rv c (pre @ (name, obj) # post)
             = (r, pre' @ (name, obj) # post, out @ out')"
    using assms by (rule PinServiceImages_stops)
  have 3: "\<forall>svc. obj = VMap svc \<and> map_of svc ''image'' = None
             \<longrightarrow> r = Returned (Some (MissingImage name))"
    using assms(2) by (cases rv) (auto simp: pin_part001_def pin_part002_def pin_part003_def)
  have 4: "\<forall>svc x. obj = VMap svc \<and> map_of svc ''image'' = Some x \<and> (\<forall>s. x \<noteq> VString s)
             \<longrightarrow> r = Returned (Some (InvalidImage name))"
    using assms(2)
    by (cases rv)
       (auto simp: pin_part001_def pin_part002_def pin_part003_def split: val.splits)
  from 1 PinServiceImages_pinned[OF assms(1)] 3 4 show ?thesis by blast
qed

theorem pin_stops_at_failing_service_witness:
  "PinServiceImages Part003 (world good_repository) [web ''nginx:stable'']
     = (Returned None, [web ''docker.io/library/nginx@sha256:aaa''],
        [print_pinning ''web'' ''nginx:stable'', Printf ''  | '' []]
        @ print_platforms [amd64, arm_v7]
        @ [print_pinned ''docker.io/library/nginx@sha256:aaa''])
   \<and> pin_service Part003 (world good_repository) ''db'' (snd db_no_image)
       = (Returned (Some (MissingImage ''db'')), snd db_no_image, [])
   \<and> Returned (Some (MissingImage ''db'')) \<noteq> Returned None
   \<and> PinServiceImages Part003 (world good_repository)
        ([web ''nginx:stable''] @ (''db'', snd db_no_image) # [web ''nginx:stable''])
       = (Returned (Some (MissingImage ''db'')),
          [web ''docker.io/library/nginx@sha256:aaa''] @ (''db'', snd db_no_image)
            # [web ''nginx:stable''],
          ([print_pinning ''web'' ''nginx:stable'', Printf ''  | '' []]
           @ print_platforms [amd64, arm_v7]
           @ [print_pinned ''docker.io/library/nginx@sha256:aaa'']) @ [])"
proof -
  have a: "PinServiceImages Part003 (world good_repository) [web ''nginx:stable'']
     = (Returned None, [web ''docker.io/library/nginx@sha256:aaa''],
        [print_pinning ''web'' ''nginx:stable'', Printf ''  | '' []]
        @ print_platforms [amd64, arm_v7]
        @ [print_pinned ''docker.io/library/nginx@sha256:aaa''])"
    by (rule PinServiceImages_good_web)
  have b: "pin_service Part003 (world good_repository) ''db'' (snd db_no_image)
       = (Returned (Some (MissingImage ''db'')), snd db_no_image, [])"
    by (simp add: pin_part003_def db_no_image_def)
  have c: "Returned (Some (MissingImage ''db'')) \<noteq> Returned None"
    by simp
  from pin_stops_at_failing_service[OF a b c, of "[web ''nginx:stable'']"] a b c
  show ?thesis by blast
qed

section \<open>Images without a tag\<close>

text \<open>
  Claim C6, as the code has it.  In the revision that checks for the tag
  (\<^verbatim>\<open>part_001\<close>): when the pass reaches a service (the services before it were pinned)
  whose image parses to a reference without a tag, and the repository of that
  reference is found, then the pass returns the error \<^verbatim>\<open>Images must be tagged\<close> for that
  image, as an error value, and the record of the service, like those of all later
  services, is as it was.
\<close>
theorem untagged_image_is_an_error:
  assumes "PinServiceImages Part001 c pre = (Returned None, pre', out)"
      and "map_of svc ''image'' = Some (VString img0)"
      and "variable_default img0 = Inr img"
      and "ParseNormalizedNamed c img = Inr named"
      and "ref_tag named = None"
      and "GetRepository c named = Inr repo"
  shows "PinServiceImages Part001 c (pre @ (name, VMap svc) # post)
           = (Returned (Some (MustBeTagged img)), pre' @ (name, VMap svc) # post,
              out @ [print_pinning name img])"
proof -
  have "pin_service Part001 c name (VMap svc)
          = (Returned (Some (MustBeTagged img)), VMap svc, [print_pinning name img])"
    using assms(2-6) by (simp add: pin_part001_def)
  from PinServiceImages_stops[OF assms(1) this] show ?thesis by simp
qed

theorem untagged_image_is_an_error_witness:
  "PinServiceImages Part001 (world good_repository) [] = (Returned None, [], [])
   \<and> map_of [(''image'', VString ''nginx'')] ''image'' = Some (VString ''nginx'')
   \<and> variable_default ''nginx'' = Inr ''nginx''
   \<and> ParseNormalizedNamed (world good_repository) ''nginx'' = Inr nginx_untagged
   \<and> ref_tag nginx_untagged = None
   \<and> GetRepository (world good_repository) nginx_untagged = Inr good_repository
   \<and> PinServiceImages Part001 (world good_repository)
        ([] @ (''web'', VMap [(''image'', VString ''nginx'')]) # [db_no_image])
       = (Returned (Some (MustBeTagged ''nginx'')),
          [] @ (''web'', VMap [(''image'', VString ''nginx'')]) # [db_no_image],
          [] @ [print_pinning ''web'' ''nginx''])"
proof -
  have 1: "PinServiceImages Part001 (world good_repository) [] = (Returned None, [], [])"
    by (simp add: PinServiceImages_def)
  have 2: "map_of [(''image'', VString ''nginx'')] ''image'' = Some (VString ''nginx'')"
    by simp
  have 3: "variable_default ''nginx'' = Inr ''nginx''"
    by (simp add: variable_default_def)
  have 4: "ParseNormalizedNamed (world good_repository) ''nginx'' = Inr nginx_untagged"
    by (simp add: world_def parse_nginx_def)
  have 5: "ref_tag nginx_untagged = None"
    by (simp add: nginx_untagged_def)
  have 6: "GetRepository (world good_repository) nginx_untagged = Inr good_repository"
    by (simp add: world_def)
  from untagged_image_is_an_error[OF 1 2 3 4 5 6, of "''web''" "[db_no_image]"] 1 2 3 4 5 6
  show ?thesis by blast
qed

text \<open>
  The claim as it is written fails twice.  In \<^verbatim>\<open>part_002\<close> the tag is taken with an
  unchecked type assertion, and an image without a tag ends the pass with a panic.
  In \<^verbatim>\<open>part_001\<close> the repository is looked up before the tag is checked, and when that
  lookup fails its error is what the pass returns.
\<close>
theorem untagged_image_counterexample:
  "ParseNormalizedNamed (world good_repository) ''nginx'' = Inr nginx_untagged
   \<and> ParseNormalizedNamed offline ''nginx'' = Inr nginx_untagged
   \<and> ref_tag nginx_untagged = None
   \<and> PinServiceImages Part002 (world good_repository) [web ''nginx'']
       = (Panicked FailedTypeAssertion, [web ''nginx''], [print_pinning ''web'' ''nginx''])
   \<and> PinServiceImages Part001 offline [web ''nginx'']
       = (Returned (Some (Upstream ''connection refused'')), [web ''nginx''],
          [print_pinning ''web'' ''nginx''])"
  by (simp add: PinServiceImages_def pin_part001_def pin_part002_def world_def offline_def
        parse_nginx_def nginx_untagged_def web_def variable_default_def)

section \<open>The empty image string\<close>

lemma SplitAfterN2_tail:
  assumes a: "SplitAfterN2 s = [p0, p1]" and l: "last s \<noteq> CHR ''-''"
  shows "p1 \<noteq> []"
proof
  let ?P = "\<lambda>c. c \<noteq> CHR ''-''"
  assume e: "p1 = []"
  from a have mem: "CHR ''-'' \<in> set s" and p1: "p1 = tl (dropWhile ?P s)"
    by (auto simp: SplitAfterN2_def split: if_splits)
  have s: "s = takeWhile ?P s @ dropWhile ?P s" by simp
  from mem have d: "dropWhile ?P s \<noteq> []" by (auto simp: dropWhile_eq_Nil_conv)
  then have "hd (dropWhile ?P s) = CHR ''-''" using hd_dropWhile[of ?P s] by simp
  with e p1 d have "dropWhile ?P s = ''-''" by (cases "dropWhile ?P s") auto
  with s have "s = takeWhile ?P s @ ''-''" by simp
  then have "last s = CHR ''-''" by (metis last_snoc)
  with l show False by simp
qed

text \<open>
  The three index expressions and the slice of lines 43 to 52 are out of range for
  exactly two images: the empty string (at index 0) and the string that is a dollar
  sign alone (at index 1).
\<close>
lemma variable_default_out_of_range:
  "variable_default img = Inl (Panicked IndexOutOfRange) \<longleftrightarrow> img = [] \<or> img = ''$''"
proof
  assume a: "variable_default img = Inl (Panicked IndexOutOfRange)"
  show "img = [] \<or> img = ''$''"
  proof (rule ccontr)
    assume n: "\<not> (img = [] \<or> img = ''$'')"
    then obtain c cs where img: "img = c # cs" by (cases img) auto
    show False
    proof (cases "c = CHR ''$''")
      case False
      with a img show False by (simp add: variable_default_def)
    next
      case True
      with n img have cs: "cs \<noteq> []" by auto
      with a img True have br: "img ! (length img - 1) = CHR ''}''"
        by (auto simp: variable_default_def split: if_splits)
      from img have "last img = img ! (length img - 1)" by (simp add: last_conv_nth)
      with br have l: "last img \<noteq> CHR ''-''" by simp
      from a img True cs br obtain p0 p1 where sp: "SplitAfterN2 img = [p0, p1]"
        and "length p1 < 1"
        by (auto simp: variable_default_def split: if_splits list.splits)
      with SplitAfterN2_tail[OF sp l] show False by simp
    qed
  qed
next
  assume "img = [] \<or> img = ''$''"
  then show "variable_default img = Inl (Panicked IndexOutOfRange)"
    by (auto simp: variable_default_def)
qed

text \<open>
  Claim C9.  In \<^verbatim>\<open>part_001\<close> the test for a leading dollar sign reads the image at
  index 0 without a check of the length.  When the pass reaches a service whose image
  is the empty string, it ends with an index out of range, and that service and the
  later ones are as they were.  The pass can be free of that panic only when the
  images are not empty: a body that does not end with an index out of range has a
  non-empty image, and a pass that returns nil has met no service with an empty image.
\<close>
theorem empty_image_index_out_of_range:
  "(PinServiceImages Part001 c pre = (Returned None, pre', out)
      \<and> map_of svc ''image'' = Some (VString [])
    \<longrightarrow> PinServiceImages Part001 c (pre @ (name, VMap svc) # post)
          = (Panicked IndexOutOfRange, pre' @ (name, VMap svc) # post, out))
   \<and> (map_of svc ''image'' = Some (VString img)
        \<and> fst (pin_service Part001 c name (VMap svc)) \<noteq> Panicked IndexOutOfRange
      \<longrightarrow> img \<noteq> [])
   \<and> (PinServiceImages Part001 c services = (Returned None, services', out)
        \<and> (name, VMap svc) \<in> set services
      \<longrightarrow> map_of svc ''image'' \<noteq> Some (VString []))"
proof (intro conjI impI)
  assume a: "PinServiceImages Part001 c pre = (Returned None, pre', out)
      \<and> map_of svc ''image'' = Some (VString [])"
  then have "pin_service Part001 c name (VMap svc) = (Panicked IndexOutOfRange, VMap svc, [])"
    by (simp add: pin_part001_def variable_default_empty)
  from PinServiceImages_stops[OF conjunct1[OF a] this]
  show "PinServiceImages Part001 c (pre @ (name, VMap svc) # post)
          = (Panicked IndexOutOfRange, pre' @ (name, VMap svc) # post, out)"
    by simp
next
  assume "map_of svc ''image'' = Some (VString img)
        \<and> fst (pin_service Part001 c name (VMap svc)) \<noteq> Panicked IndexOutOfRange"
  then show "img \<noteq> []"
    by (auto simp: pin_part001_def variable_default_empty)
next
  assume a: "PinServiceImages Part001 c services = (Returned None, services', out)
        \<and> (name, VMap svc) \<in> set services"
  from range_services_all[OF conjunct1[OF a, unfolded PinServiceImages_def]]
  have "list_all (\<lambda>old. \<exists>new out1.
          pin_service Part001 c (fst old) (snd old) = (Returned None, new, out1)) services"
    by (induction services services' rule: list_all2_induct) auto
  with a have "\<exists>new out1. pin_service Part001 c name (VMap svc) = (Returned None, new, out1)"
    by (auto simp: list_all_iff)
  then show "map_of svc ''image'' \<noteq> Some (VString [])"
    by (auto simp: pin_part001_def variable_default_empty)
qed

theorem empty_image_index_out_of_range_witness:
  "PinServiceImages Part001 (world good_repository) [web ''nginx:stable'']
     = (Returned None, [web ''docker.io/library/nginx@sha256:aaa''],
        [print_pinning ''web'' ''nginx:stable'', Printf ''  | '' []]
        @ print_platforms [amd64, arm_v7]
        @ [print_pinned ''docker.io/library/nginx@sha256:aaa''])
   \<and> map_of [(''image'', VString [])] ''image'' = Some (VString [])
   \<and> fst (PinServiceImages Part001 (world good_repository)
        ([web ''nginx:stable''] @ (''db'', VMap [(''image'', VString [])]) # [db_no_image]))
       = Panicked IndexOutOfRange
   \<and> fst (snd (PinServiceImages Part001 (world good_repository)
        ([web ''nginx:stable''] @ (''db'', VMap [(''image'', VString [])]) # [db_no_image])))
       = [web ''docker.io/library/nginx@sha256:aaa''] @ (''db'', VMap [(''image'', VString [])])
           # [db_no_image]
   \<and> map_of [(''image'', VString ''nginx:stable'')] ''image'' = Some (VString ''nginx:stable'')
   \<and> fst (pin_service Part001 (world good_repository) ''web''
             (VMap [(''image'', VString ''nginx:stable'')])) \<noteq> Panicked IndexOutOfRange
   \<and> ''nginx:stable'' \<noteq> []
   \<and> (''web'', VMap [(''image'', VString ''nginx:stable'')]) \<in> set [web ''nginx:stable'']
   \<and> map_of [(''image'', VString ''nginx:stable'')] ''image'' \<noteq> Some (VString [])"
proof -
  have 1: "PinServiceImages Part001 (world good_repository) [web ''nginx:stable'']
     = (Returned None, [web ''docker.io/library/nginx@sha256:aaa''],
        [print_pinning ''web'' ''nginx:stable'', Printf ''  | '' []]
        @ print_platforms [amd64, arm_v7]
        @ [print_pinned ''docker.io/library/nginx@sha256:aaa''])"
    by (rule PinServiceImages_good_web)
  have 2: "map_of [(''image'', VString [])] ''image'' = Some (VString [])"
    by simp
  have 3: "map_of [(''image'', VString ''nginx:stable'')] ''image'' = Some (VString ''nginx:stable'')"
    by simp
  have 4: "fst (pin_service Part001 (world good_repository) ''web''
             (VMap [(''image'', VString ''nginx:stable'')])) \<noteq> Panicked IndexOutOfRange"
    using pin_good_web[of Part001] by (simp add: web_def)
  have 5: "(''web'', VMap [(''image'', VString ''nginx:stable'')]) \<in> set [web ''nginx:stable'']"
    by (simp add: web_def)
  note t = empty_image_index_out_of_range[of "world good_repository" "[web ''nginx:stable'']"
      "[web ''docker.io/library/nginx@sha256:aaa'']"
      "[print_pinning ''web'' ''nginx:stable'', Printf ''  | '' []]
        @ print_platforms [amd64, arm_v7]
        @ [print_pinned ''docker.io/library/nginx@sha256:aaa'']"]
  from t[of "[(''image'', VString [])]" "''db''" "[db_no_image]"] 1 2
  have a: "PinServiceImages Part001 (world good_repository)
        ([web ''nginx:stable''] @ (''db'', VMap [(''image'', VString [])]) # [db_no_image])
       = (Panicked IndexOutOfRange,
          [web ''docker.io/library/nginx@sha256:aaa''] @ (''db'', VMap [(''image'', VString [])])
           # [db_no_image],
          [print_pinning ''web'' ''nginx:stable'', Printf ''  | '' []]
          @ print_platforms [amd64, arm_v7]
          @ [print_pinned ''docker.io/library/nginx@sha256:aaa''])"
    by blast
  from t[of "[(''image'', VString ''nginx:stable'')]" "''web''" _ "''nginx:stable''"
        "[web ''nginx:stable'']"] 1 3 4 5
  have b: "''nginx:stable'' \<noteq> []"
    and c: "map_of [(''image'', VString ''nginx:stable'')] ''image'' \<noteq> Some (VString [])"
    by blast+
  from 1 2 3 4 5 a b c show ?thesis by simp
qed

section \<open>The pinned image\<close>

lemma takeWhile_stop:
  "c \<notin> set xs \<Longrightarrow> takeWhile (\<lambda>x. x \<noteq> c) (xs @ c # ys) = xs"
  by (induction xs) auto

lemma dropWhile_stop:
  "c \<notin> set xs \<Longrightarrow> dropWhile (\<lambda>x. x \<noteq> c) (xs @ c # ys) = c # ys"
  by (induction xs) auto

lemma takeWhile_all: "c \<notin> set xs \<Longrightarrow> takeWhile (\<lambda>x. x \<noteq> c) xs = xs"
  by (induction xs) auto

lemma dropWhile_all: "c \<notin> set xs \<Longrightarrow> dropWhile (\<lambda>x. x \<noteq> c) xs = []"
  by (induction xs) auto

lemma reference_components_pinned:
  assumes "well_formed_tagged named"
  shows "reference_components (pinned_image named d)
           = \<lparr>ref_domain = ref_domain named, ref_path = ref_path named,
              ref_tag = None, ref_digest = Some d\<rparr>"
proof -
  let ?dom = "ref_domain named" and ?path = "ref_path named"
  from assms have dom: "CHR ''/'' \<notin> set ?dom" "CHR ''@'' \<notin> set ?dom"
    and path: "CHR '':'' \<notin> set ?path" "CHR ''@'' \<notin> set ?path"
    by (simp_all add: well_formed_tagged_def)
  have at: "CHR ''@'' \<notin> set (?dom @ ''/'' @ ?path)" using dom path by simp
  have p: "pinned_image named d = (?dom @ ''/'' @ ?path) @ CHR ''@'' # d"
    by (simp add: pinned_image_def)
  have 1: "takeWhile (\<lambda>c. c \<noteq> CHR ''@'') (pinned_image named d) = ?dom @ ''/'' @ ?path"
    unfolding p using at by (rule takeWhile_stop)
  have 2: "dropWhile (\<lambda>c. c \<noteq> CHR ''@'') (pinned_image named d) = CHR ''@'' # d"
    unfolding p using at by (rule dropWhile_stop)
  have 3: "takeWhile (\<lambda>c. c \<noteq> CHR ''/'') (?dom @ CHR ''/'' # ?path) = ?dom"
    using dom(1) by (rule takeWhile_stop)
  have 4: "dropWhile (\<lambda>c. c \<noteq> CHR ''/'') (?dom @ CHR ''/'' # ?path) = CHR ''/'' # ?path"
    using dom(1) by (rule dropWhile_stop)
  show ?thesis
    using path(1)
    by (simp add: reference_components_def Let_def 1 2 3 4 takeWhile_all[OF path(1)]
          dropWhile_all[OF path(1)])
qed

lemma update_image_find:
  "find (\<lambda>s. Name s = n) services = Some s \<Longrightarrow>
   find (\<lambda>s. Name s = n) (update_image n pinned services) = Some (s\<lparr>Image := pinned\<rparr>)"
  by (induction services) (auto split: if_splits)

lemma pin_part001_pinned:
  assumes "pin_part001 c name (VMap svc) = (Returned None, obj', out)"
      and "map_of svc ''image'' = Some (VString img0)"
      and "variable_default img0 = Inr img"
      and "ParseNormalizedNamed c img = Inr named"
  shows "\<exists>repo tag. GetRepository c named = Inr repo \<and> ref_tag named = Some tag
           \<and> obj' = VMap (AList.update ''image''
                       (VString (pinned_image named (fst (TagsGet repo tag)))) svc)"
  using assms
  by (auto simp: pin_part001_def split: sum.splits option.splits dest!: lookup_and_pin_pinned)

text \<open>
  Claim C1.  Let the image of a service parse to a well-formed tagged reference.
  After a pass of \<^verbatim>\<open>part_001\<close> that returned nil, the image of that service is
  \<open>domain @ "/" @ path @ "@" @ digest\<close>, with the domain and the path of the parsed
  reference and the digest that came with the lookup of its tag, and nothing else in
  the record of the service has changed.  The callback of \<^verbatim>\<open>publish.go\<close>, when it
  returns nil, has put that string, with the digest of the inspection, into the first
  service of the configuration that has the name of its service.  Read as a reference,
  the new image has no tag, has that digest, and has the domain and the path of the
  reference it came from.
\<close>
theorem pinned_image_keeps_domain_and_path:
  assumes "well_formed_tagged named"
  shows "(PinServiceImages Part001 c services = (Returned None, services', out)
          \<and> map_of services name = Some (VMap svc)
          \<and> map_of svc ''image'' = Some (VString img0)
          \<and> variable_default img0 = Inr img
          \<and> ParseNormalizedNamed c img = Inr named
        \<longrightarrow> (\<exists>repo tag d.
               GetRepository c named = Inr repo \<and> ref_tag named = Some tag
               \<and> d = fst (TagsGet repo tag)
               \<and> map_of services' name
                   = Some (VMap (AList.update ''image''
                        (VString (ref_domain named @ ''/'' @ ref_path named @ ''@'' @ d)) svc))
               \<and> reference_components (ref_domain named @ ''/'' @ ref_path named @ ''@'' @ d)
                   = \<lparr>ref_domain = ref_domain named, ref_path = ref_path named,
                      ref_tag = None, ref_digest = Some d\<rparr>))
       \<and> (pin_publish cli config service = (Returned None, config', out2)
          \<and> ParseNormalizedNamed cli (Image service) = Inr named
          \<and> find (\<lambda>s. Name s = Name service) config = Some s
        \<longrightarrow> (\<exists>d platforms.
               DistributionInspect cli (Image service) = Inr (d, platforms)
               \<and> find (\<lambda>s. Name s = Name service) config'
                   = Some (s\<lparr>Image := ref_domain named @ ''/'' @ ref_path named @ ''@'' @ d\<rparr>)
               \<and> reference_components (ref_domain named @ ''/'' @ ref_path named @ ''@'' @ d)
                   = \<lparr>ref_domain = ref_domain named, ref_path = ref_path named,
                      ref_tag = None, ref_digest = Some d\<rparr>))"
proof (intro conjI impI)
  assume a: "PinServiceImages Part001 c services = (Returned None, services', out)
          \<and> map_of services name = Some (VMap svc)
          \<and> map_of svc ''image'' = Some (VString img0)
          \<and> variable_default img0 = Inr img
          \<and> ParseNormalizedNamed c img = Inr named"
  then have run: "range_services (pin_part001 c) services = (Returned None, services', out)"
    by (simp add: PinServiceImages_def)
  from list_all2_map_of[where
      P = "\<lambda>n old new. \<exists>out1. pin_part001 c n old = (Returned None, new, out1)",
      OF range_services_all[OF run]] a
  obtain obj' out1 where o: "map_of services' name = Some obj'"
    and p: "pin_part001 c name (VMap svc) = (Returned None, obj', out1)"
    by blast
  from pin_part001_pinned[OF p] a obtain repo tag where
    "GetRepository c named = Inr repo" "ref_tag named = Some tag"
    "obj' = VMap (AList.update ''image''
              (VString (pinned_image named (fst (TagsGet repo tag)))) svc)"
    by blast
  with o reference_components_pinned[OF assms, of "fst (TagsGet repo tag)"]
  show "\<exists>repo tag d.
               GetRepository c named = Inr repo \<and> ref_tag named = Some tag
               \<and> d = fst (TagsGet repo tag)
               \<and> map_of services' name
                   = Some (VMap (AList.update ''image''
                        (VString (ref_domain named @ ''/'' @ ref_path named @ ''@'' @ d)) svc))
               \<and> reference_components (ref_domain named @ ''/'' @ ref_path named @ ''@'' @ d)
                   = \<lparr>ref_domain = ref_domain named, ref_path = ref_path named,
                      ref_tag = None, ref_digest = Some d\<rparr>"
    by (simp add: pinned_image_def)
next
  assume a: "pin_publish cli config service = (Returned None, config', out2)
          \<and> ParseNormalizedNamed cli (Image service) = Inr named
          \<and> find (\<lambda>s. Name s = Name service) config = Some s"
  then obtain d platforms where
    di: "DistributionInspect cli (Image service) = Inr (d, platforms)"
    and c': "config' = update_image (Name service) (pinned_image named d) config"
    by (auto simp: pin_publish_def split: sum.splits)
  from a c' have "find (\<lambda>s. Name s = Name service) config'
      = Some (s\<lparr>Image := pinned_image named d\<rparr>)"
    by (simp add: update_image_find)
  with di reference_components_pinned[OF assms, of d]
  show "\<exists>d platforms.
               DistributionInspect cli (Image service) = Inr (d, platforms)
               \<and> find (\<lambda>s. Name s = Name service) config'
                   = Some (s\<lparr>Image := ref_domain named @ ''/'' @ ref_path named @ ''@'' @ d\<rparr>)
               \<and> reference_components (ref_domain named @ ''/'' @ ref_path named @ ''@'' @ d)
                   = \<lparr>ref_domain = ref_domain named, ref_path = ref_path named,
                      ref_tag = None, ref_digest = Some d\<rparr>"
    by (simp add: pinned_image_def)
qed

theorem pinned_image_keeps_domain_and_path_witness:
  "well_formed_tagged nginx_stable
   \<and> PinServiceImages Part001 (world good_repository) [web ''nginx:stable'']
       = (Returned None, [web ''docker.io/library/nginx@sha256:aaa''],
          [print_pinning ''web'' ''nginx:stable'', Printf ''  | '' []]
          @ print_platforms [amd64, arm_v7]
          @ [print_pinned ''docker.io/library/nginx@sha256:aaa''])
   \<and> map_of [web ''nginx:stable''] ''web'' = Some (VMap [(''image'', VString ''nginx:stable'')])
   \<and> map_of [(''image'', VString ''nginx:stable'')] ''image'' = Some (VString ''nginx:stable'')
   \<and> variable_default ''nginx:stable'' = Inr ''nginx:stable''
   \<and> ParseNormalizedNamed (world good_repository) ''nginx:stable'' = Inr nginx_stable
   \<and> map_of [web ''docker.io/library/nginx@sha256:aaa''] ''web''
       = Some (VMap [(''image'', VString ''docker.io/library/nginx@sha256:aaa'')])
   \<and> reference_components ''docker.io/library/nginx@sha256:aaa''
       = \<lparr>ref_domain = ''docker.io'', ref_path = ''library/nginx'',
          ref_tag = None, ref_digest = Some ''sha256:aaa''\<rparr>
   \<and> fst (pin_publish (world good_repository) [web_service] web_service) = Returned None
   \<and> ParseNormalizedNamed (world good_repository) (Image web_service) = Inr nginx_stable
   \<and> find (\<lambda>s. Name s = Name web_service) [web_service] = Some web_service
   \<and> find (\<lambda>s. Name s = Name web_service)
        (fst (snd (pin_publish (world good_repository) [web_service] web_service)))
       = Some (web_service\<lparr>Image := ''docker.io/library/nginx@sha256:aaa''\<rparr>)"
proof -
  have wf: "well_formed_tagged nginx_stable"
    by (simp add: well_formed_tagged_def nginx_stable_def)
  have 1: "PinServiceImages Part001 (world good_repository) [web ''nginx:stable'']
       = (Returned None, [web ''docker.io/library/nginx@sha256:aaa''],
          [print_pinning ''web'' ''nginx:stable'', Printf ''  | '' []]
          @ print_platforms [amd64, arm_v7]
          @ [print_pinned ''docker.io/library/nginx@sha256:aaa''])"
    by (rule PinServiceImages_good_web)
  have 2: "map_of [web ''nginx:stable''] ''web''
      = Some (VMap [(''image'', VString ''nginx:stable'')])"
    by (simp add: web_def)
  have 3: "map_of [(''image'', VString ''nginx:stable'')] ''image'' = Some (VString ''nginx:stable'')"
    by simp
  have 4: "variable_default ''nginx:stable'' = Inr ''nginx:stable''"
    by (simp add: variable_default_def)
  have 5: "ParseNormalizedNamed (world good_repository) ''nginx:stable'' = Inr nginx_stable"
    by (simp add: world_def parse_nginx_def)
  obtain config' out2 where
    6: "pin_publish (world good_repository) [web_service] web_service
          = (Returned None, config', out2)"
    by (simp add: pin_publish_def world_def parse_nginx_def web_service_def)
  have 7: "ParseNormalizedNamed (world good_repository) (Image web_service) = Inr nginx_stable"
    by (simp add: world_def parse_nginx_def web_service_def)
  have 8: "find (\<lambda>s. Name s = Name web_service) [web_service] = Some web_service"
    by simp
  note t = pinned_image_keeps_domain_and_path[OF wf,
      where c = "world good_repository" and services = "[web ''nginx:stable'']"
        and services' = "[web ''docker.io/library/nginx@sha256:aaa'']"
        and name = "''web''" and svc = "[(''image'', VString ''nginx:stable'')]"
        and ?img0.0 = "''nginx:stable''" and img = "''nginx:stable''"
        and cli = "world good_repository" and config = "[web_service]"
        and service = web_service and config' = config' and ?out2.0 = out2
        and s = web_service]
  from t 1 2 3 4 5 have
    a: "map_of [web ''docker.io/library/nginx@sha256:aaa''] ''web''
       = Some (VMap [(''image'', VString ''docker.io/library/nginx@sha256:aaa'')])"
    and b: "reference_components ''docker.io/library/nginx@sha256:aaa''
       = \<lparr>ref_domain = ''docker.io'', ref_path = ''library/nginx'',
          ref_tag = None, ref_digest = Some ''sha256:aaa''\<rparr>"
    by (auto simp: world_def good_repository_def nginx_stable_def)
  from t 6 7 8 have
    c: "find (\<lambda>s. Name s = Name web_service) config'
       = Some (web_service\<lparr>Image := ''docker.io/library/nginx@sha256:aaa''\<rparr>)"
    by (auto simp: world_def nginx_stable_def)
  from wf 1 2 3 4 5 6 7 8 a b c show ?thesis by simp
qed

section \<open>Failures of the resolution\<close>

text \<open>The engine inspection returns the error of a failed inspection.\<close>
lemma engine_failure_returned:
  "map_of svc ''image'' = Some (VString img) \<Longrightarrow> ParseNormalizedNamed cli img = Inr named \<Longrightarrow>
   DistributionInspect cli img = Inl e \<Longrightarrow>
   pin_part003 cli name (VMap svc)
     = (Returned (Some (Upstream e)), VMap svc, [print_pinning name img, Println ['''']])"
  by (simp add: pin_part003_def)

lemma engine_failure_returned_publish:
  "ParseNormalizedNamed cli (Image service) = Inr named \<Longrightarrow>
   DistributionInspect cli (Image service) = Inl e \<Longrightarrow>
   pin_publish cli config service
     = (Returned (Some (Upstream e)), config,
        [print_pinning (Name service) (Image service), Println ['''']])"
  by (simp add: pin_publish_def)

lemma PinServiceImages_publish_first_failure:
  "WithServices cli services = (service # rest, err) \<Longrightarrow>
   ParseNormalizedNamed cli (Image service) = Inr named \<Longrightarrow>
   DistributionInspect cli (Image service) = Inl e \<Longrightarrow>
   PinServiceImages_publish cli services
     = (Returned (Some (Upstream e)), services,
        [print_pinning (Name service) (Image service), Println ['''']])"
  by (simp add: PinServiceImages_publish_def engine_failure_returned_publish)

text \<open>
  Claim C3 does not hold for the registry lookup of \<^verbatim>\<open>part_001\<close> and \<^verbatim>\<open>part_002\<close>,
  which looks at none of the errors of \<^verbatim>\<open>Tags(ctx).Get\<close>, \<^verbatim>\<open>repo.Manifests\<close> and
  \<^verbatim>\<open>mansvc.Get\<close>.  When the tag is not found, the error of the lookup is dropped, the
  manifest is asked for with the digest of the zero descriptor, and what the pass
  returns is the error of the type switch for a nil manifest.  When the manifest
  service cannot be had, the nil service is called and the pass panics.
\<close>
theorem registry_failure_not_returned:
  "TagsGet tag_missing_repository ''stable'' = ([], Some ''manifest unknown'')
   \<and> PinServiceImages Part001 (world tag_missing_repository) [web ''nginx:stable'']
       = (Returned (Some (UnexpectedManifest NilManifest)), [web ''nginx:stable''],
          [print_pinning ''web'' ''nginx:stable''])
   \<and> PinServiceImages Part002 (world tag_missing_repository) [web ''nginx:stable'']
       = (Returned (Some (UnexpectedManifest NilManifest)), [web ''nginx:stable''],
          [print_pinning ''web'' ''nginx:stable''])
   \<and> Manifests no_manifests_repository = (None, Some ''unauthorized'')
   \<and> PinServiceImages Part001 (world no_manifests_repository) [web ''nginx:stable'']
       = (Panicked NilDereference, [web ''nginx:stable''], [print_pinning ''web'' ''nginx:stable''])
   \<and> PinServiceImages Part002 (world no_manifests_repository) [web ''nginx:stable'']
       = (Panicked NilDereference, [web ''nginx:stable''], [print_pinning ''web'' ''nginx:stable''])"
  by (simp add: PinServiceImages_def pin_part001_def pin_part002_def world_def
        parse_nginx_def nginx_stable_def web_def variable_default_def lookup_and_pin_def
        tag_missing_repository_def no_manifests_repository_def)

section \<open>The platforms in the progress output\<close>

lemma Sprintf_plain: "CHR ''%'' \<notin> set s \<Longrightarrow> Sprintf s [] = Some s"
  by (induction s) auto

lemma console_append:
  "console (xs @ ys) =
     (case console xs of None \<Rightarrow> None | Some a \<Rightarrow> map_option ((@) a) (console ys))"
proof (induction xs)
  case Nil
  show ?case by (cases "console ys") simp_all
next
  case (Cons x xs)
  then show ?case
    by (cases x; cases "console ys") (auto split: option.splits)
qed

lemma console_platform_first:
  "CHR ''%'' \<notin> set (Architecture p) \<Longrightarrow>
   (Architecture p = ''arm'' \<longrightarrow> CHR ''%'' \<notin> set (Variant p)) \<Longrightarrow>
   console (print_platform (0, p)) = Some (spec_platform_entry p)"
  by (auto simp: print_platform_def spec_platform_entry_def Sprintf_plain)

lemma console_platform_next:
  "CHR ''%'' \<notin> set (Architecture p) \<Longrightarrow>
   (Architecture p = ''arm'' \<longrightarrow> CHR ''%'' \<notin> set (Variant p)) \<Longrightarrow>
   console (print_platform (Suc n, p)) = Some ('', '' @ spec_platform_entry p)"
  by (auto simp: print_platform_def spec_platform_entry_def Sprintf_plain)

lemma console_platforms_rest:
  "plain_platforms ms \<Longrightarrow>
   console (concat (map print_platform (enumerate (Suc n) ms)))
     = Some (concat (map (\<lambda>p. '', '' @ spec_platform_entry p) ms))"
proof (induction ms arbitrary: n)
  case Nil
  show ?case by simp
next
  case (Cons m ms)
  from Cons.prems have m: "CHR ''%'' \<notin> set (Architecture m)"
      "Architecture m = ''arm'' \<longrightarrow> CHR ''%'' \<notin> set (Variant m)"
    and ms: "plain_platforms ms"
    by (simp_all add: plain_platforms_def)
  show ?case
    using console_platform_next[OF m, of n] Cons.IH[OF ms, of "Suc n"]
    by (simp add: console_append)
qed

lemma spec_join_Cons:
  "spec_join (x # xs) = x @ concat (map (\<lambda>y. '', '' @ y) xs)"
  by (induction xs arbitrary: x) auto

text \<open>The loop of the code prints the list that the specification describes.\<close>
lemma console_print_platforms:
  assumes "plain_platforms ms"
  shows "console (print_platforms ms) = Some (spec_platform_list ms)"
proof (cases ms)
  case Nil
  then show ?thesis by (simp add: print_platforms_def spec_platform_list_def)
next
  case (Cons m rest)
  with assms have m: "CHR ''%'' \<notin> set (Architecture m)"
      "Architecture m = ''arm'' \<longrightarrow> CHR ''%'' \<notin> set (Variant m)"
    and rest: "plain_platforms rest"
    by (simp_all add: plain_platforms_def)
  show ?thesis
    using console_platform_first[OF m] console_platforms_rest[OF rest, of 0] Cons
    by (simp add: print_platforms_def spec_platform_list_def console_append spec_join_Cons
          comp_def)
qed

lemma formats_platforms_rest:
  "concat (map format_of (concat (map print_platform (enumerate (Suc n) ms))))
     = concat (map (\<lambda>p. '', '' @ spec_platform_entry p) ms)"
  by (induction ms arbitrary: n) (auto simp: print_platform_def spec_platform_entry_def)

text \<open>The formats handed to \<^verbatim>\<open>Printf\<close> by the loop, one after the other.\<close>
lemma formats_print_platforms:
  "concat (map format_of (print_platforms ms)) = spec_platform_list ms"
proof (cases ms)
  case Nil
  then show ?thesis by (simp add: print_platforms_def spec_platform_list_def)
next
  case (Cons m rest)
  then show ?thesis
    using formats_platforms_rest[of 0 rest]
    by (auto simp: print_platforms_def spec_platform_list_def spec_join_Cons comp_def
          print_platform_def spec_platform_entry_def)
qed

text \<open>
  What holds of the platform list.  For a manifest list, \<^verbatim>\<open>part_001\<close> makes, between
  the call that names the service and the call with the pinned image, a call for the
  mark \<open>"  | "\<close> and then the calls of the loop, one entry for each manifest of the list,
  in the order of the list; for a manifest of a single platform it makes no call
  between those two; the callback of \<^verbatim>\<open>publish.go\<close> makes the calls of the loop for the
  platforms of the inspection.  The formats given to \<^verbatim>\<open>Printf\<close> by the loop, one after
  the other, are the architectures joined by \<open>", "\<close>, with the variant right after
  \<^verbatim>\<open>arm\<close>.  For names without a percent sign that is also the text on the console.
\<close>
lemma platforms_printed_in_order:
  "concat (map format_of (print_platforms ms)) = spec_platform_list ms
     \<and> (plain_platforms ms
        \<longrightarrow> console (Printf ''  | '' [] # print_platforms ms)
              = Some (''  | '' @ spec_platform_list ms))
     \<and> (map_of svc ''image'' = Some (VString img0) \<and> variable_default img0 = Inr img
         \<and> ParseNormalizedNamed regc img = Inr named \<and> GetRepository regc named = Inr repo
         \<and> ref_tag named = Some tag \<and> Manifests repo = (Some mansvc_Get, err2)
         \<and> mansvc_Get (fst (TagsGet repo tag)) = (DeserializedManifestList ms, err3)
        \<longrightarrow> snd (snd (pin_part001 regc name (VMap svc)))
              = [print_pinning name img, Printf ''  | '' []] @ print_platforms ms
                @ [print_pinned (pinned_image named (fst (TagsGet repo tag)))])
     \<and> (map_of svc1 ''image'' = Some (VString img1) \<and> variable_default img1 = Inr img1'
         \<and> ParseNormalizedNamed regc1 img1' = Inr named1 \<and> GetRepository regc1 named1 = Inr repo1
         \<and> ref_tag named1 = Some tag1 \<and> Manifests repo1 = (Some mansvc_Get1, err21)
         \<and> mansvc_Get1 (fst (TagsGet repo1 tag1)) = (DeserializedManifest, err31)
        \<longrightarrow> snd (snd (pin_part001 regc1 name1 (VMap svc1)))
              = [print_pinning name1 img1',
                 print_pinned (pinned_image named1 (fst (TagsGet repo1 tag1)))])
     \<and> (ParseNormalizedNamed cli (Image service) = Inr named2
         \<and> DistributionInspect cli (Image service) = Inr (d, ms)
        \<longrightarrow> snd (snd (pin_publish cli config service))
              = [print_pinning (Name service) (Image service), Printf ''  | '' []]
                @ print_platforms ms @ [print_pinned (pinned_image named2 d)])"
proof (intro conjI impI)
  show "concat (map format_of (print_platforms ms)) = spec_platform_list ms"
    by (rule formats_print_platforms)
next
  assume "plain_platforms ms"
  then show "console (Printf ''  | '' [] # print_platforms ms)
      = Some (''  | '' @ spec_platform_list ms)"
    using console_print_platforms[of ms] by simp
qed (auto simp: pin_part001_def lookup_and_pin_def pin_publish_def split: prod.splits)

lemma platforms_printed_in_order_example:
  "concat (map format_of (print_platforms [amd64, arm_v7])) = ''amd64, armv7''
   \<and> plain_platforms [amd64, arm_v7]
   \<and> console (Printf ''  | '' [] # print_platforms [amd64, arm_v7]) = Some ''  | amd64, armv7''
   \<and> map_of [(''image'', VString ''nginx:stable'')] ''image'' = Some (VString ''nginx:stable'')
   \<and> variable_default ''nginx:stable'' = Inr ''nginx:stable''
   \<and> ParseNormalizedNamed (world good_repository) ''nginx:stable'' = Inr nginx_stable
   \<and> GetRepository (world good_repository) nginx_stable = Inr good_repository
   \<and> ref_tag nginx_stable = Some ''stable''
   \<and> Manifests good_repository
       = (Some (\<lambda>d. (DeserializedManifestList [amd64, arm_v7], None)), None)
   \<and> snd (snd (pin_part001 (world good_repository) ''web''
                 (VMap [(''image'', VString ''nginx:stable'')])))
       = [print_pinning ''web'' ''nginx:stable'', Printf ''  | '' []]
         @ print_platforms [amd64, arm_v7]
         @ [print_pinned (pinned_image nginx_stable ''sha256:aaa'')]
   \<and> GetRepository (world single_platform_repository) nginx_stable
       = Inr single_platform_repository
   \<and> Manifests single_platform_repository = (Some (\<lambda>d. (DeserializedManifest, None)), None)
   \<and> snd (snd (pin_part001 (world single_platform_repository) ''web''
                 (VMap [(''image'', VString ''nginx:stable'')])))
       = [print_pinning ''web'' ''nginx:stable'',
          print_pinned (pinned_image nginx_stable ''sha256:aaa'')]
   \<and> ParseNormalizedNamed (world good_repository) (Image web_service) = Inr nginx_stable
   \<and> DistributionInspect (world good_repository) (Image web_service)
       = Inr (''sha256:aaa'', [amd64, arm_v7])
   \<and> snd (snd (pin_publish (world good_repository) [web_service] web_service))
       = [print_pinning (Name web_service) (Image web_service), Printf ''  | '' []]
         @ print_platforms [amd64, arm_v7]
         @ [print_pinned (pinned_image nginx_stable ''sha256:aaa'')]"
proof -
  have p: "plain_platforms [amd64, arm_v7]"
    by (simp add: plain_platforms_def amd64_def arm_v7_def)
  have 1: "map_of [(''image'', VString ''nginx:stable'')] ''image'' = Some (VString ''nginx:stable'')"
    by simp
  have 2: "variable_default ''nginx:stable'' = Inr ''nginx:stable''"
    by (simp add: variable_default_def)
  have 3: "ParseNormalizedNamed (world r) ''nginx:stable'' = Inr nginx_stable" for r
    by (simp add: world_def parse_nginx_def)
  have 4: "GetRepository (world r) nginx_stable = Inr r" for r
    by (simp add: world_def)
  have 5: "ref_tag nginx_stable = Some ''stable''"
    by (simp add: nginx_stable_def)
  have 6: "Manifests good_repository
       = (Some (\<lambda>d. (DeserializedManifestList [amd64, arm_v7], None)), None)"
    by (simp add: good_repository_def)
  have 7: "Manifests single_platform_repository
       = (Some (\<lambda>d. (DeserializedManifest, None)), None)"
    by (simp add: single_platform_repository_def)
  have 8: "ParseNormalizedNamed (world good_repository) (Image web_service) = Inr nginx_stable"
    by (simp add: world_def parse_nginx_def web_service_def)
  have 9: "DistributionInspect (world good_repository) (Image web_service)
       = Inr (''sha256:aaa'', [amd64, arm_v7])"
    by (simp add: world_def)
  have g: "fst (TagsGet good_repository ''stable'') = ''sha256:aaa''"
    "fst (TagsGet single_platform_repository ''stable'') = ''sha256:aaa''"
    by (simp_all add: good_repository_def single_platform_repository_def)
  note t = platforms_printed_in_order[where ms = "[amd64, arm_v7]" and svc = "[(''image'', VString ''nginx:stable'')]" and ?img0.0 = "''nginx:stable''"
        and img = "''nginx:stable''" and regc = "world good_repository"
        and named = nginx_stable and repo = good_repository and tag = "''stable''"
        and mansvc_Get = "\<lambda>d. (DeserializedManifestList [amd64, arm_v7], None)"
        and ?err2.0 = None and ?err3.0 = None and name = "''web''"
        and ?svc1.0 = "[(''image'', VString ''nginx:stable'')]" and ?img1.0 = "''nginx:stable''"
        and img1' = "''nginx:stable''" and ?regc1.0 = "world single_platform_repository"
        and ?named1.0 = nginx_stable and ?repo1.0 = single_platform_repository
        and ?tag1.0 = "''stable''" and ?mansvc_Get1.0 = "\<lambda>d. (DeserializedManifest, None)"
        and ?err21.0 = None and ?err31.0 = None and ?name1.0 = "''web''"
        and cli = "world good_repository" and service = web_service
        and ?named2.0 = nginx_stable and d = "''sha256:aaa''" and config = "[web_service]"]
  from t p have a: "console (Printf ''  | '' [] # print_platforms [amd64, arm_v7])
      = Some ''  | amd64, armv7''"
    by (simp add: spec_platform_list_def spec_platform_entry_def amd64_def arm_v7_def)
  from t have f: "concat (map format_of (print_platforms [amd64, arm_v7])) = ''amd64, armv7''"
    by (simp add: spec_platform_list_def spec_platform_entry_def amd64_def arm_v7_def)
  from t 1 2 3 4 5 6 g have b: "snd (snd (pin_part001 (world good_repository) ''web''
                 (VMap [(''image'', VString ''nginx:stable'')])))
       = [print_pinning ''web'' ''nginx:stable'', Printf ''  | '' []]
         @ print_platforms [amd64, arm_v7]
         @ [print_pinned (pinned_image nginx_stable ''sha256:aaa'')]"
    by simp
  from t 1 2 3 4 5 7 g have c: "snd (snd (pin_part001 (world single_platform_repository) ''web''
                 (VMap [(''image'', VString ''nginx:stable'')])))
       = [print_pinning ''web'' ''nginx:stable'',
          print_pinned (pinned_image nginx_stable ''sha256:aaa'')]"
    by simp
  from t 8 9 have d: "snd (snd (pin_publish (world good_repository) [web_service] web_service))
       = [print_pinning (Name web_service) (Image web_service), Printf ''  | '' []]
         @ print_platforms [amd64, arm_v7]
         @ [print_pinned (pinned_image nginx_stable ''sha256:aaa'')]"
    by simp
  from p 1 2 3 4 5 6 7 8 9 a b c d f show ?thesis by simp
qed

text \<open>
  Claim C8 does not hold for every manifest list.  The loop gives the architecture,
  and the variant after \<^verbatim>\<open>arm\<close>, to \<^verbatim>\<open>fmt.Printf\<close> as the format string, so a name
  with a percent sign in it is read as a format and not printed as it stands.  For a
  manifest list with the architectures \<^verbatim>\<open>amd64\<close> and \<^verbatim>\<open>%d\<close>, \<^verbatim>\<open>part_001\<close> and the callback
  of \<^verbatim>\<open>publish.go\<close> make the calls below, and the console shows
  \<^verbatim>\<open>amd64, %!d(MISSING)\<close> where the list of the architecture names is \<^verbatim>\<open>amd64, %d\<close>.
\<close>
theorem platform_name_read_as_format:
  "Manifests percent_repository
     = (Some (\<lambda>d. (DeserializedManifestList [amd64, percent_d], None)), None)
   \<and> pin_part001 (world percent_repository) ''web'' (VMap [(''image'', VString ''nginx:stable'')])
       = (Returned None,
          VMap [(''image'', VString ''docker.io/library/nginx@sha256:aaa'')],
          [print_pinning ''web'' ''nginx:stable'', Printf ''  | '' [],
           Printf ''amd64'' [], Printf '', '' [], Printf ''%d'' [],
           print_pinned ''docker.io/library/nginx@sha256:aaa''])
   \<and> pin_publish percent_engine [web_service] web_service
       = (Returned None,
          [web_service\<lparr>Image := ''docker.io/library/nginx@sha256:aaa''\<rparr>],
          [print_pinning ''web'' ''nginx:stable'', Printf ''  | '' [],
           Printf ''amd64'' [], Printf '', '' [], Printf ''%d'' [],
           print_pinned ''docker.io/library/nginx@sha256:aaa''])
   \<and> console [Printf ''  | '' [], Printf ''amd64'' [], Printf '', '' [], Printf ''%d'' []]
       = Some ''  | amd64, %!d(MISSING)''
   \<and> spec_platform_list [amd64, percent_d] = ''amd64, %d''
   \<and> ''  | amd64, %!d(MISSING)'' \<noteq> ''  | '' @ spec_platform_list [amd64, percent_d]"
  by (simp add: pin_part001_def pin_publish_def lookup_and_pin_def variable_default_def
        world_def percent_engine_def percent_repository_def parse_nginx_def nginx_stable_def
        web_service_def pinned_image_def print_platforms_def print_platform_def
        amd64_def percent_d_def spec_platform_list_def spec_platform_entry_def
        print_pinning_def print_pinned_def)

section \<open>The archive\<close>

lemma Write_after_WriteHeader:
  assumes "WriteHeader w hdr = Inr w1"
  shows "Write w1 b =
           (\<lparr>entries = entries w
                @ [\<lparr>header = hdr,
                    data = take (if hdr_Typeflag hdr = TypeReg then hdr_Size hdr else 0) b\<rparr>],
             nb = (if hdr_Typeflag hdr = TypeReg then hdr_Size hdr else 0) - length b\<rparr>,
            (if hdr_Typeflag hdr = TypeReg then hdr_Size hdr else 0) < length b)"
  using assms by (auto simp: WriteHeader_def Write_def split: if_splits)

lemma WriteHeader_entries:
  "WriteHeader w hdr = Inr w1 \<Longrightarrow> entries w1 = entries w @ [\<lparr>header = hdr, data = []\<rparr>]"
  by (auto simp: WriteHeader_def split: if_splits)

lemma Write_entries:
  assumes "WriteHeader w hdr = Inr w1"
  shows "\<exists>d. entries (fst (Write w1 b)) = entries w @ [\<lparr>header = hdr, data = d\<rparr>]"
  using Write_after_WriteHeader[OF assms, of b] by simp

lemma write_content_part001_entries:
  assumes "WriteHeader w0 hdr = Inr w" "write_content_part001 fs c v st w = (None, st')"
  shows "\<exists>d. entries (tw st') = entries w0 @ [\<lparr>header = hdr, data = d\<rparr>]"
  using assms Write_after_WriteHeader[OF assms(1)] WriteHeader_entries[OF assms(1)]
  by (auto simp: write_content_part001_def split: if_splits sum.splits prod.splits)

text \<open>
  A call of the walk function of \<^verbatim>\<open>part_001\<close> that returns nil leaves the archive as
  it is or adds entries under the name of the visited file, a name that no pattern
  matches.
\<close>
lemma walkFn_part001_step:
  assumes "walkFn_part001 fs c appDir ignores st v = (None, st')"
  shows "\<exists>new. entries (tw st') = entries (tw st) @ new
           \<and> (\<forall>e\<in>set new. hdr_Name (header e) = header_name appDir (v_file v)
                 \<and> first_ignore (Match fs) ignores (hdr_Name (header e)) = None)"
  using assms
  apply (auto simp: walkFn_part001_def Let_def split: option.splits if_splits sum.splits)
    apply (drule (1) write_content_part001_entries, fastforce)+
  done

text \<open>What the visit of a regular file named \<^verbatim>\<open>docker-compose.yml\<close> adds.\<close>
lemma walkFn_part001_descriptor:
  assumes "walkFn_part001 fs c appDir ignores st v = (None, st')"
      and "fi_Mode (v_fi v) = ModeRegular"
      and "fi_Name (v_fi v) = ''docker-compose.yml''"
      and "first_ignore (Match fs) ignores (header_name appDir (v_file v)) = None"
  shows "entries (tw st') = entries (tw st) @ [descriptor_entry c (header_name appDir (v_file v))]"
proof -
  let ?hdr = "\<lparr>hdr_Name = header_name appDir (v_file v), hdr_Size = length c,
               hdr_Typeflag = TypeReg, hdr_Linkname = []\<rparr>"
  from assms obtain w where w: "WriteHeader (tw st) ?hdr = Inr w"
    and st': "st' = st\<lparr>tw := fst (Write w c)\<rparr>"
    by (auto simp: walkFn_part001_def FileInfoHeader_def Let_def write_content_part001_def
          split: option.splits sum.splits)
  from Write_after_WriteHeader[OF w, of c] st' show ?thesis
    by (simp add: descriptor_entry_def)
qed

lemma walkFn_publish_step:
  assumes "walkFn_publish fs c dir st v = (None, st')"
  shows "\<exists>new. entries (tw st') = entries (tw st) @ new"
proof (cases "v_err v = None \<and> fi_Mode (v_fi v) = ModeRegular")
  case False
  with assms show ?thesis
    by (auto simp: walkFn_publish_def split: option.splits if_splits)
next
  case True
  from assms True obtain hdr0 where h: "FileInfoHeader (v_fi v) (fi_Name (v_fi v)) = Inr hdr0"
    by (auto simp: walkFn_publish_def split: sum.splits)
  define hdr where "hdr = (if fi_Name (v_fi v) = ''docker-compose.yml''
      then hdr0\<lparr>hdr_Size := length c\<rparr> else hdr0)\<lparr>hdr_Name := header_name dir (v_file v)\<rparr>"
  from assms True h obtain w where w: "WriteHeader (tw st) hdr = Inr w"
    by (auto simp: walkFn_publish_def Let_def hdr_def split: sum.splits)
  from assms True h w have "\<exists>b. tw st' = fst (Write w b)"
    by (cases "fi_Name (v_fi v) = ''docker-compose.yml''")
       (auto simp: walkFn_publish_def Let_def hdr_def split: sum.splits prod.splits if_splits,
        metis fst_conv)
  then obtain b where "tw st' = fst (Write w b)" by blast
  with Write_entries[OF w, of b] show ?thesis by auto
qed

lemma walkFn_publish_descriptor:
  assumes "walkFn_publish fs c dir st v = (None, st')"
      and "fi_Mode (v_fi v) = ModeRegular"
      and "fi_Name (v_fi v) = ''docker-compose.yml''"
  shows "entries (tw st') = entries (tw st) @ [descriptor_entry c (header_name dir (v_file v))]"
proof -
  let ?hdr = "\<lparr>hdr_Name = header_name dir (v_file v), hdr_Size = length c,
               hdr_Typeflag = TypeReg, hdr_Linkname = []\<rparr>"
  from assms obtain w where w: "WriteHeader (tw st) ?hdr = Inr w"
    and st': "st' = st\<lparr>tw := fst (Write w c)\<rparr>"
    by (auto simp: walkFn_publish_def FileInfoHeader_def Let_def
          split: option.splits sum.splits)
  from Write_after_WriteHeader[OF w, of c] st' show ?thesis
    by (simp add: descriptor_entry_def)
qed

text \<open>A walk without error keeps what is in the archive and adds what each call adds.\<close>
lemma walk_visits_grows:
  assumes step: "\<And>st v st'. fn st v = (None, st') \<Longrightarrow>
                   \<exists>new. entries (tw st') = entries (tw st) @ new"
      and "walk_visits fn vs st = (None, st')"
  shows "\<exists>new. entries (tw st') = entries (tw st) @ new"
  using assms(2)
proof (induction vs arbitrary: st)
  case Nil
  then show ?case by simp
next
  case (Cons v vs)
  then obtain st1 where 1: "fn st v = (None, st1)" and 2: "walk_visits fn vs st1 = (None, st')"
    by (auto split: prod.splits option.splits)
  from step[OF 1] Cons.IH[OF 2] show ?case by auto
qed

lemma walk_visits_member:
  assumes step: "\<And>st v st'. fn st v = (None, st') \<Longrightarrow>
                   \<exists>new. entries (tw st') = entries (tw st) @ new"
      and add: "\<And>st st'. fn st v = (None, st') \<Longrightarrow> entries (tw st') = entries (tw st) @ [e]"
      and "walk_visits fn vs st = (None, st')"
      and "v \<in> set vs"
  shows "e \<in> set (entries (tw st'))"
  using assms(3,4)
proof (induction vs arbitrary: st)
  case Nil
  then show ?case by simp
next
  case (Cons u vs)
  then obtain st1 where 1: "fn st u = (None, st1)" and 2: "walk_visits fn vs st1 = (None, st')"
    by (auto split: prod.splits option.splits)
  show ?case
  proof (cases "u = v")
    case True
    with add 1 have "e \<in> set (entries (tw st1))" by simp
    moreover have "\<exists>new. entries (tw st') = entries (tw st1) @ new"
    proof (rule walk_visits_grows[where fn = fn])
      show "walk_visits fn vs st1 = (None, st')" by (rule 2)
    qed (rule step)
    ultimately show ?thesis by auto
  next
    case False
    with Cons.prems have "v \<in> set vs" by simp
    from Cons.IH[OF 2 this] show ?thesis .
  qed
qed

lemma walk_visits_all:
  assumes step: "\<And>st v st'. fn st v = (None, st') \<Longrightarrow>
                   \<exists>new. entries (tw st') = entries (tw st) @ new \<and> (\<forall>e\<in>set new. P e)"
      and "walk_visits fn vs st = (None, st')"
      and "\<forall>e\<in>set (entries (tw st)). P e"
  shows "\<forall>e\<in>set (entries (tw st')). P e"
  using assms(2,3)
proof (induction vs arbitrary: st)
  case Nil
  then show ?case by simp
next
  case (Cons v vs)
  then obtain st1 where 1: "fn st v = (None, st1)" and 2: "walk_visits fn vs st1 = (None, st')"
    by (auto split: prod.splits option.splits)
  from step[OF 1] Cons.prems(2) have "\<forall>e\<in>set (entries (tw st1)). P e" by auto
  from Cons.IH[OF 2 this] show ?case .
qed

lemma createTgz_part001_descriptor:
  assumes "createTgz_part001 fs c appDir = (Inr archive, out)"
      and "v \<in> set (Walk fs appDir)"
      and "fi_Mode (v_fi v) = ModeRegular"
      and "fi_Name (v_fi v) = ''docker-compose.yml''"
      and "first_ignore (Match fs) (getIgnores fs) (header_name appDir (v_file v)) = None"
  shows "descriptor_entry c (header_name appDir (v_file v)) \<in> set archive"
proof -
  let ?fn = "walkFn_part001 fs c appDir (getIgnores fs)"
  from assms(1) obtain st' where w: "walk_visits ?fn (Walk fs appDir) new_walk = (None, st')"
    and a: "archive = entries (tw st')"
    by (auto simp: createTgz_part001_def split: prod.splits option.splits)
  have "descriptor_entry c (header_name appDir (v_file v)) \<in> set (entries (tw st'))"
  proof (rule walk_visits_member[where fn = ?fn and v = v, OF _ _ w assms(2)])
    fix st v st' assume "?fn st v = (None, st')"
    from walkFn_part001_step[OF this] show "\<exists>new. entries (tw st') = entries (tw st) @ new"
      by blast
  next
    fix st st' assume "?fn st v = (None, st')"
    from walkFn_part001_descriptor[OF this assms(3,4,5)]
    show "entries (tw st')
            = entries (tw st) @ [descriptor_entry c (header_name appDir (v_file v))]" .
  qed
  with a show ?thesis by simp
qed

lemma createTgz_publish_descriptor:
  assumes "createTgz_publish fs c dir = Inr archive"
      and "v \<in> set (Walk fs dir)"
      and "fi_Mode (v_fi v) = ModeRegular"
      and "fi_Name (v_fi v) = ''docker-compose.yml''"
  shows "descriptor_entry c (header_name dir (v_file v)) \<in> set archive"
proof -
  let ?fn = "walkFn_publish fs c dir"
  from assms(1) obtain st' where w: "walk_visits ?fn (Walk fs dir) new_walk = (None, st')"
    and a: "archive = entries (tw st')"
    by (auto simp: createTgz_publish_def split: prod.splits option.splits)
  have "descriptor_entry c (header_name dir (v_file v)) \<in> set (entries (tw st'))"
  proof (rule walk_visits_member[where fn = ?fn and v = v, OF _ _ w assms(2)])
    fix st v st' assume "?fn st v = (None, st')"
    from walkFn_publish_step[OF this] show "\<exists>new. entries (tw st') = entries (tw st) @ new" .
  next
    fix st st' assume "?fn st v = (None, st')"
    from walkFn_publish_descriptor[OF this assms(3,4)]
    show "entries (tw st') = entries (tw st) @ [descriptor_entry c (header_name dir (v_file v))]" .
  qed
  with a show ?thesis by simp
qed

lemma first_ignore_None:
  "first_ignore m ignores name = None \<Longrightarrow> p \<in> set ignores \<Longrightarrow> m p name \<noteq> (True, None)"
  by (induction ignores) (auto split: prod.splits if_splits)

lemma createTgz_part001_not_ignored:
  assumes "createTgz_part001 fs c appDir = (Inr archive, out)"
      and "e \<in> set archive"
  shows "first_ignore (Match fs) (getIgnores fs) (hdr_Name (header e)) = None"
proof -
  let ?fn = "walkFn_part001 fs c appDir (getIgnores fs)"
  from assms(1) obtain st' where w: "walk_visits ?fn (Walk fs appDir) new_walk = (None, st')"
    and a: "archive = entries (tw st')"
    by (auto simp: createTgz_part001_def split: prod.splits option.splits)
  have "\<forall>e\<in>set (entries (tw st')).
          first_ignore (Match fs) (getIgnores fs) (hdr_Name (header e)) = None"
  proof (rule walk_visits_all[where fn = ?fn, OF _ w])
    fix st v st' assume "?fn st v = (None, st')"
    from walkFn_part001_step[OF this]
    show "\<exists>new. entries (tw st') = entries (tw st) @ new
            \<and> (\<forall>e\<in>set new. first_ignore (Match fs) (getIgnores fs) (hdr_Name (header e)) = None)"
      by blast
  next
    show "\<forall>e\<in>set (entries (tw new_walk)).
            first_ignore (Match fs) (getIgnores fs) (hdr_Name (header e)) = None"
      by (simp add: new_walk_def)
  qed
  with a assms(2) show ?thesis by simp
qed

text \<open>Every entry of the archive has the name of a visited file.\<close>
lemma walk_visits_part001_names:
  assumes "walk_visits (walkFn_part001 fs c appDir ignores) vs st = (None, st')"
      and "e \<in> set (entries (tw st'))"
  shows "e \<in> set (entries (tw st))
         \<or> (\<exists>v\<in>set vs. hdr_Name (header e) = header_name appDir (v_file v))"
  using assms
proof (induction vs arbitrary: st)
  case Nil
  then show ?case by simp
next
  case (Cons v vs)
  then obtain st1 where 1: "walkFn_part001 fs c appDir ignores st v = (None, st1)"
    and 2: "walk_visits (walkFn_part001 fs c appDir ignores) vs st1 = (None, st')"
    by (auto split: prod.splits option.splits)
  from Cons.IH[OF 2 Cons.prems(2)] walkFn_part001_step[OF 1] show ?case by auto
qed

lemma createTgz_part001_names:
  assumes "createTgz_part001 fs c appDir = (Inr archive, out)"
      and "e \<in> set archive"
  shows "\<exists>v\<in>set (Walk fs appDir). hdr_Name (header e) = header_name appDir (v_file v)"
proof -
  from assms(1) obtain st' where
    w: "walk_visits (walkFn_part001 fs c appDir (getIgnores fs)) (Walk fs appDir) new_walk
          = (None, st')"
    and a: "archive = entries (tw st')"
    by (auto simp: createTgz_part001_def split: prod.splits option.splits)
  from walk_visits_part001_names[OF w] assms(2) a show ?thesis
    by (auto simp: new_walk_def)
qed

lemmas tgz_eval =
  createTgz_part001_def createTgz_publish_def bundle_dir_def three_files_def regular_def
  directory_def walkFn_part001_def walkFn_publish_def write_content_part001_def new_walk_def
  FileInfoHeader_def header_name_def TrimPrefix_def WriteHeader_def Write_def Let_def
  getIgnores_def literal_match_def ignore_visit_def ignoring_a_txt_def empty_ignore_file_def
  a_txt_entry_def

lemma createTgz_publish_three_files:
  "createTgz_publish (bundle_dir None [] three_files) ''services: {}'' ''./''
     = Inr [a_txt_entry,
            descriptor_entry ''services: {}'' ''docker-compose.yml'',
            descriptor_entry ''services: {}'' ''sub/docker-compose.yml'']"
  by (simp add: tgz_eval descriptor_entry_def)

lemma createTgz_part001_three_files:
  "createTgz_part001 (bundle_dir None [] three_files) ''services: {}'' ''./''
     = (Inr [a_txt_entry,
             descriptor_entry ''services: {}'' ''docker-compose.yml'',
             descriptor_entry ''services: {}'' ''sub/docker-compose.yml''], [])"
  by (simp add: tgz_eval descriptor_entry_def)

lemma createTgz_part001_ignoring_a_txt:
  "createTgz_part001 ignoring_a_txt ''services: {}'' ''./''
     = (Inr [descriptor_entry ''services: {}'' ''docker-compose.yml'',
             descriptor_entry ''services: {}'' ''sub/docker-compose.yml''],
        [Println [''  |-> ignoring: '', ''.composeappignores''],
         Println [''  |-> ignoring: '', ''a.txt'']])"
  by (simp add: tgz_eval descriptor_entry_def)

section \<open>The descriptor in the archive\<close>

text \<open>
  Claim C4, as the code has it.  Let the archive of \<^verbatim>\<open>part_001\<close> be built without an
  error.  When the walk visits a regular file named \<^verbatim>\<open>docker-compose.yml\<close> at the root
  of the directory and no ignore pattern matches that name, then the archive has an
  entry under that name whose header size is the length of the serialized descriptor
  and whose bytes are the serialized descriptor; neither the size of the file on disk
  nor its bytes have a part in it.  When the walk visits nothing whose name in the
  archive is \<^verbatim>\<open>docker-compose.yml\<close>, the archive has no entry under that name.
\<close>
theorem descriptor_replaces_file_on_disk:
  assumes "createTgz_part001 fs c appDir = (Inr archive, out)"
  shows "(v \<in> set (Walk fs appDir)
          \<and> fi_Mode (v_fi v) = ModeRegular
          \<and> fi_Name (v_fi v) = ''docker-compose.yml''
          \<and> header_name appDir (v_file v) = ''docker-compose.yml''
          \<and> first_ignore (Match fs) (getIgnores fs) ''docker-compose.yml'' = None
        \<longrightarrow> \<lparr>header = \<lparr>hdr_Name = ''docker-compose.yml'', hdr_Size = length c,
                          hdr_Typeflag = TypeReg, hdr_Linkname = []\<rparr>,
                data = c\<rparr> \<in> set archive)
       \<and> ((\<forall>u\<in>set (Walk fs appDir). header_name appDir (v_file u) \<noteq> ''docker-compose.yml'')
        \<longrightarrow> (\<forall>e\<in>set archive. hdr_Name (header e) \<noteq> ''docker-compose.yml''))"
proof (intro conjI impI ballI)
  assume a: "v \<in> set (Walk fs appDir)
          \<and> fi_Mode (v_fi v) = ModeRegular
          \<and> fi_Name (v_fi v) = ''docker-compose.yml''
          \<and> header_name appDir (v_file v) = ''docker-compose.yml''
          \<and> first_ignore (Match fs) (getIgnores fs) ''docker-compose.yml'' = None"
  with createTgz_part001_descriptor[OF assms, of v]
  show "\<lparr>header = \<lparr>hdr_Name = ''docker-compose.yml'', hdr_Size = length c,
                    hdr_Typeflag = TypeReg, hdr_Linkname = []\<rparr>,
          data = c\<rparr> \<in> set archive"
    by (simp add: descriptor_entry_def)
next
  fix e
  assume "\<forall>u\<in>set (Walk fs appDir). header_name appDir (v_file u) \<noteq> ''docker-compose.yml''"
    and "e \<in> set archive"
  with createTgz_part001_names[OF assms, of e]
  show "hdr_Name (header e) \<noteq> ''docker-compose.yml''" by auto
qed

theorem descriptor_replaces_file_on_disk_witness:
  "createTgz_part001 (bundle_dir None [] three_files) ''services: {}'' ''./''
     = (Inr [a_txt_entry,
             descriptor_entry ''services: {}'' ''docker-compose.yml'',
             descriptor_entry ''services: {}'' ''sub/docker-compose.yml''], [])
   \<and> regular ''docker-compose.yml'' ''docker-compose.yml'' 5
       \<in> set (Walk (bundle_dir None [] three_files) ''./'')
   \<and> fi_Mode (v_fi (regular ''docker-compose.yml'' ''docker-compose.yml'' 5)) = ModeRegular
   \<and> fi_Name (v_fi (regular ''docker-compose.yml'' ''docker-compose.yml'' 5))
       = ''docker-compose.yml''
   \<and> fi_Size (v_fi (regular ''docker-compose.yml'' ''docker-compose.yml'' 5)) = 5
   \<and> Open (bundle_dir None [] three_files) ''docker-compose.yml'' = Inr ''stale''
   \<and> header_name ''./'' (v_file (regular ''docker-compose.yml'' ''docker-compose.yml'' 5))
       = ''docker-compose.yml''
   \<and> first_ignore (Match (bundle_dir None [] three_files))
        (getIgnores (bundle_dir None [] three_files)) ''docker-compose.yml'' = None
   \<and> \<lparr>header = \<lparr>hdr_Name = ''docker-compose.yml'', hdr_Size = length ''services: {}'',
                   hdr_Typeflag = TypeReg, hdr_Linkname = []\<rparr>,
         data = ''services: {}''\<rparr>
       \<in> set [a_txt_entry,
               descriptor_entry ''services: {}'' ''docker-compose.yml'',
               descriptor_entry ''services: {}'' ''sub/docker-compose.yml'']
   \<and> createTgz_part001 (bundle_dir None [] [regular ''a.txt'' ''a.txt'' 5]) ''services: {}''
        ''./'' = (Inr [a_txt_entry], [])
   \<and> list_all (\<lambda>u. header_name ''./'' (v_file u) \<noteq> ''docker-compose.yml'')
        (Walk (bundle_dir None [] [regular ''a.txt'' ''a.txt'' 5]) ''./'')
   \<and> a_txt_entry \<in> set [a_txt_entry]
   \<and> hdr_Name (header a_txt_entry) \<noteq> ''docker-compose.yml''"
proof -
  have 1: "createTgz_part001 (bundle_dir None [] three_files) ''services: {}'' ''./''
     = (Inr [a_txt_entry,
             descriptor_entry ''services: {}'' ''docker-compose.yml'',
             descriptor_entry ''services: {}'' ''sub/docker-compose.yml''], [])"
    by (rule createTgz_part001_three_files)
  have 2: "regular ''docker-compose.yml'' ''docker-compose.yml'' 5
       \<in> set (Walk (bundle_dir None [] three_files) ''./'')"
    by (simp add: bundle_dir_def three_files_def)
  have 3: "fi_Mode (v_fi (regular ''docker-compose.yml'' ''docker-compose.yml'' 5)) = ModeRegular"
    by (simp add: regular_def)
  have 4: "fi_Name (v_fi (regular ''docker-compose.yml'' ''docker-compose.yml'' 5))
       = ''docker-compose.yml''"
    by (simp add: regular_def)
  have 5: "header_name ''./'' (v_file (regular ''docker-compose.yml'' ''docker-compose.yml'' 5))
       = ''docker-compose.yml''"
    by (simp add: regular_def header_name_def TrimPrefix_def)
  have 6: "first_ignore (Match (bundle_dir None [] three_files))
        (getIgnores (bundle_dir None [] three_files)) ''docker-compose.yml'' = None"
    by (simp add: bundle_dir_def getIgnores_def)
  have 7: "fi_Size (v_fi (regular ''docker-compose.yml'' ''docker-compose.yml'' 5)) = 5"
    "Open (bundle_dir None [] three_files) ''docker-compose.yml'' = Inr ''stale''"
    by (simp_all add: regular_def bundle_dir_def)
  have 8: "createTgz_part001 (bundle_dir None [] [regular ''a.txt'' ''a.txt'' 5]) ''services: {}''
        ''./'' = (Inr [a_txt_entry], [])"
    by (simp add: tgz_eval)
  have 9: "list_all (\<lambda>u. header_name ''./'' (v_file u) \<noteq> ''docker-compose.yml'')
        (Walk (bundle_dir None [] [regular ''a.txt'' ''a.txt'' 5]) ''./'')"
    by (simp add: bundle_dir_def regular_def directory_def header_name_def TrimPrefix_def)
  from descriptor_replaces_file_on_disk[OF 1,
      of "regular ''docker-compose.yml'' ''docker-compose.yml'' 5"] 2 3 4 5 6
  have a: "\<lparr>header = \<lparr>hdr_Name = ''docker-compose.yml'', hdr_Size = length ''services: {}'',
                   hdr_Typeflag = TypeReg, hdr_Linkname = []\<rparr>,
         data = ''services: {}''\<rparr>
       \<in> set [a_txt_entry,
               descriptor_entry ''services: {}'' ''docker-compose.yml'',
               descriptor_entry ''services: {}'' ''sub/docker-compose.yml'']"
    by blast
  from descriptor_replaces_file_on_disk[OF 8] 9
  have b: "hdr_Name (header a_txt_entry) \<noteq> ''docker-compose.yml''"
    by (simp add: list_all_iff)
  from 1 2 3 4 5 6 7 8 9 a b show ?thesis by simp
qed

text \<open>
  The claim as it is written asks for the entry whether or not a file of that name is
  on disk.  The entry is written when the walk visits such a file and at no other
  time: a directory with \<^verbatim>\<open>a.txt\<close> alone gives an archive with \<^verbatim>\<open>a.txt\<close> alone.
\<close>
theorem descriptor_without_file_counterexample:
  "createTgz_part001 (bundle_dir None [] [regular ''a.txt'' ''a.txt'' 5]) ''services: {}'' ''./''
     = (Inr [\<lparr>header = \<lparr>hdr_Name = ''a.txt'', hdr_Size = 5, hdr_Typeflag = TypeReg,
                         hdr_Linkname = []\<rparr>,
              data = ''hello''\<rparr>], [])"
  by (simp add: tgz_eval)

text \<open>
  Claim C10.  Whether the descriptor is put in place of a file is decided by the base
  name of the file (\<^verbatim>\<open>fi.Name()\<close>), not by its path in the archive.  For every
  regular file that the walk visits and whose base name is \<^verbatim>\<open>docker-compose.yml\<close>,
  at any depth, an archive built without an error has, under the path of that file
  in the archive, the entry with the length of the serialized descriptor as its size
  and the serialized descriptor as its bytes.  In \<^verbatim>\<open>part_001\<close> this is so for a file
  that no ignore pattern matches; in \<^verbatim>\<open>publish.go\<close> there are no patterns.  The
  visit of such a file adds that one entry and nothing else.
\<close>
theorem descriptor_by_base_name:
  "(createTgz_part001 fs c appDir = (Inr archive, out)
      \<and> v \<in> set (Walk fs appDir)
      \<and> fi_Mode (v_fi v) = ModeRegular
      \<and> fi_Name (v_fi v) = ''docker-compose.yml''
      \<and> first_ignore (Match fs) (getIgnores fs) (header_name appDir (v_file v)) = None
    \<longrightarrow> \<lparr>header = \<lparr>hdr_Name = header_name appDir (v_file v), hdr_Size = length c,
                      hdr_Typeflag = TypeReg, hdr_Linkname = []\<rparr>,
            data = c\<rparr> \<in> set archive)
   \<and> (walkFn_part001 fs c appDir (getIgnores fs) st v = (None, st')
      \<and> fi_Mode (v_fi v) = ModeRegular
      \<and> fi_Name (v_fi v) = ''docker-compose.yml''
      \<and> first_ignore (Match fs) (getIgnores fs) (header_name appDir (v_file v)) = None
    \<longrightarrow> entries (tw st')
          = entries (tw st)
            @ [\<lparr>header = \<lparr>hdr_Name = header_name appDir (v_file v), hdr_Size = length c,
                           hdr_Typeflag = TypeReg, hdr_Linkname = []\<rparr>,
                 data = c\<rparr>])
   \<and> (createTgz_publish fs c bundleDir = Inr archive2
      \<and> v \<in> set (Walk fs bundleDir)
      \<and> fi_Mode (v_fi v) = ModeRegular
      \<and> fi_Name (v_fi v) = ''docker-compose.yml''
    \<longrightarrow> \<lparr>header = \<lparr>hdr_Name = header_name bundleDir (v_file v), hdr_Size = length c,
                      hdr_Typeflag = TypeReg, hdr_Linkname = []\<rparr>,
            data = c\<rparr> \<in> set archive2)
   \<and> (walkFn_publish fs c bundleDir st v = (None, st2)
      \<and> fi_Mode (v_fi v) = ModeRegular
      \<and> fi_Name (v_fi v) = ''docker-compose.yml''
    \<longrightarrow> entries (tw st2)
          = entries (tw st)
            @ [\<lparr>header = \<lparr>hdr_Name = header_name bundleDir (v_file v), hdr_Size = length c,
                           hdr_Typeflag = TypeReg, hdr_Linkname = []\<rparr>,
                 data = c\<rparr>])"
  using createTgz_part001_descriptor[of fs c appDir archive out v]
    walkFn_part001_descriptor[of fs c appDir "getIgnores fs" st v st']
    createTgz_publish_descriptor[of fs c bundleDir archive2 v]
    walkFn_publish_descriptor[of fs c bundleDir st v st2]
  by (simp add: descriptor_entry_def)

theorem descriptor_by_base_name_witness:
  "createTgz_part001 (bundle_dir None [] three_files) ''services: {}'' ''./''
     = (Inr [a_txt_entry,
             descriptor_entry ''services: {}'' ''docker-compose.yml'',
             descriptor_entry ''services: {}'' ''sub/docker-compose.yml''], [])
   \<and> createTgz_publish (bundle_dir None [] three_files) ''services: {}'' ''./''
     = Inr [a_txt_entry,
            descriptor_entry ''services: {}'' ''docker-compose.yml'',
            descriptor_entry ''services: {}'' ''sub/docker-compose.yml'']
   \<and> regular ''sub/docker-compose.yml'' ''docker-compose.yml'' 5
       \<in> set (Walk (bundle_dir None [] three_files) ''./'')
   \<and> fi_Mode (v_fi (regular ''sub/docker-compose.yml'' ''docker-compose.yml'' 5)) = ModeRegular
   \<and> fi_Name (v_fi (regular ''sub/docker-compose.yml'' ''docker-compose.yml'' 5))
       = ''docker-compose.yml''
   \<and> header_name ''./'' (v_file (regular ''sub/docker-compose.yml'' ''docker-compose.yml'' 5))
       = ''sub/docker-compose.yml''
   \<and> first_ignore (Match (bundle_dir None [] three_files))
        (getIgnores (bundle_dir None [] three_files)) ''sub/docker-compose.yml'' = None
   \<and> \<lparr>header = \<lparr>hdr_Name = ''sub/docker-compose.yml'', hdr_Size = length ''services: {}'',
                   hdr_Typeflag = TypeReg, hdr_Linkname = []\<rparr>,
         data = ''services: {}''\<rparr>
       \<in> set [a_txt_entry,
               descriptor_entry ''services: {}'' ''docker-compose.yml'',
               descriptor_entry ''services: {}'' ''sub/docker-compose.yml'']
   \<and> fst (walkFn_part001 (bundle_dir None [] three_files) ''services: {}'' ''./''
            (getIgnores (bundle_dir None [] three_files)) new_walk
            (regular ''sub/docker-compose.yml'' ''docker-compose.yml'' 5)) = None
   \<and> entries (tw (snd (walkFn_part001 (bundle_dir None [] three_files) ''services: {}'' ''./''
            (getIgnores (bundle_dir None [] three_files)) new_walk
            (regular ''sub/docker-compose.yml'' ''docker-compose.yml'' 5))))
       = [descriptor_entry ''services: {}'' ''sub/docker-compose.yml'']
   \<and> fst (walkFn_publish (bundle_dir None [] three_files) ''services: {}'' ''./'' new_walk
            (regular ''sub/docker-compose.yml'' ''docker-compose.yml'' 5)) = None
   \<and> entries (tw (snd (walkFn_publish (bundle_dir None [] three_files) ''services: {}'' ''./''
            new_walk (regular ''sub/docker-compose.yml'' ''docker-compose.yml'' 5))))
       = [descriptor_entry ''services: {}'' ''sub/docker-compose.yml'']"
proof -
  let ?fs = "bundle_dir None [] three_files"
  let ?v = "regular ''sub/docker-compose.yml'' ''docker-compose.yml'' 5"
  have 1: "createTgz_part001 ?fs ''services: {}'' ''./''
     = (Inr [a_txt_entry,
             descriptor_entry ''services: {}'' ''docker-compose.yml'',
             descriptor_entry ''services: {}'' ''sub/docker-compose.yml''], [])"
    by (rule createTgz_part001_three_files)
  have 2: "createTgz_publish ?fs ''services: {}'' ''./''
     = Inr [a_txt_entry,
            descriptor_entry ''services: {}'' ''docker-compose.yml'',
            descriptor_entry ''services: {}'' ''sub/docker-compose.yml'']"
    by (rule createTgz_publish_three_files)
  have 3: "?v \<in> set (Walk ?fs ''./'')"
    by (simp add: bundle_dir_def three_files_def)
  have 4: "fi_Mode (v_fi ?v) = ModeRegular" "fi_Name (v_fi ?v) = ''docker-compose.yml''"
    by (simp_all add: regular_def)
  have 5: "header_name ''./'' (v_file ?v) = ''sub/docker-compose.yml''"
    by (simp add: regular_def header_name_def TrimPrefix_def)
  have 6: "first_ignore (Match ?fs) (getIgnores ?fs) ''sub/docker-compose.yml'' = None"
    by (simp add: bundle_dir_def getIgnores_def)
  obtain st' where 7: "walkFn_part001 ?fs ''services: {}'' ''./'' (getIgnores ?fs) new_walk ?v
      = (None, st')"
    by (simp add: tgz_eval)
  obtain st2 where 8: "walkFn_publish ?fs ''services: {}'' ''./'' new_walk ?v = (None, st2)"
    by (simp add: tgz_eval)
  note t = descriptor_by_base_name[where fs = ?fs and c = "''services: {}''" and appDir = "''./''"
      and bundleDir = "''./''" and v = ?v and st = new_walk and st' = st' and ?st2.0 = st2
      and archive = "[a_txt_entry,
             descriptor_entry ''services: {}'' ''docker-compose.yml'',
             descriptor_entry ''services: {}'' ''sub/docker-compose.yml'']"
      and ?archive2.0 = "[a_txt_entry,
             descriptor_entry ''services: {}'' ''docker-compose.yml'',
             descriptor_entry ''services: {}'' ''sub/docker-compose.yml'']"
      and out = "[]"]
  from t 1 3 4 5 6 have a: "\<lparr>header = \<lparr>hdr_Name = ''sub/docker-compose.yml'',
                   hdr_Size = length ''services: {}'',
                   hdr_Typeflag = TypeReg, hdr_Linkname = []\<rparr>,
         data = ''services: {}''\<rparr>
       \<in> set [a_txt_entry,
               descriptor_entry ''services: {}'' ''docker-compose.yml'',
               descriptor_entry ''services: {}'' ''sub/docker-compose.yml'']"
    by simp
  from t 7 4 5 6 have b: "entries (tw st')
      = [descriptor_entry ''services: {}'' ''sub/docker-compose.yml'']"
    by (simp add: new_walk_def descriptor_entry_def)
  from t 8 4 5 have c: "entries (tw st2)
      = [descriptor_entry ''services: {}'' ''sub/docker-compose.yml'']"
    by (simp add: new_walk_def descriptor_entry_def)
  from 1 2 3 4 5 6 7 8 a b c show ?thesis by simp
qed

section \<open>The ignore file\<close>

text \<open>
  Claim C5, as the code has it.  Let the ignore file be there, and let the archive be
  built without an error.  Then no entry of the archive has a name that one of the
  patterns of the ignore file matches (\<^verbatim>\<open>filepath.Match\<close> returns true and no error).
  When the ignore file has at least one pattern, its own name is added to the patterns,
  and, \<^verbatim>\<open>filepath.Match\<close> matching that name with itself, the archive has no entry
  under the name of the ignore file.
\<close>
theorem ignored_entries_are_absent:
  assumes "createTgz_part001 fs c appDir = (Inr archive, out)"
      and "ignore_file fs = Some content"
  shows "(\<forall>e\<in>set archive. \<forall>p\<in>set (ReadAll fs content).
            Match fs p (hdr_Name (header e)) \<noteq> (True, None))
       \<and> (ReadAll fs content \<noteq> []
            \<and> Match fs ''.composeappignores'' ''.composeappignores'' = (True, None)
          \<longrightarrow> (\<forall>e\<in>set archive. hdr_Name (header e) \<noteq> ''.composeappignores''))"
proof (intro conjI ballI impI)
  fix e p assume e: "e \<in> set archive" and p: "p \<in> set (ReadAll fs content)"
  from p assms(2) have "p \<in> set (getIgnores fs)"
    by (auto simp: getIgnores_def Let_def)
  with createTgz_part001_not_ignored[OF assms(1) e]
  show "Match fs p (hdr_Name (header e)) \<noteq> (True, None)"
    by (rule first_ignore_None)
next
  fix e assume e: "e \<in> set archive"
    and a: "ReadAll fs content \<noteq> []
            \<and> Match fs ''.composeappignores'' ''.composeappignores'' = (True, None)"
  with assms(2) have "''.composeappignores'' \<in> set (getIgnores fs)"
    by (auto simp: getIgnores_def Let_def)
  with createTgz_part001_not_ignored[OF assms(1) e]
  have "Match fs ''.composeappignores'' (hdr_Name (header e)) \<noteq> (True, None)"
    by (rule first_ignore_None)
  with a show "hdr_Name (header e) \<noteq> ''.composeappignores''" by auto
qed

theorem ignored_entries_are_absent_witness:
  "createTgz_part001 ignoring_a_txt ''services: {}'' ''./''
     = (Inr [descriptor_entry ''services: {}'' ''docker-compose.yml'',
             descriptor_entry ''services: {}'' ''sub/docker-compose.yml''],
        [Println [''  |-> ignoring: '', ''.composeappignores''],
         Println [''  |-> ignoring: '', ''a.txt'']])
   \<and> ignore_file ignoring_a_txt = Some ''a.txt''
   \<and> ignore_visit 5 \<in> set (Walk ignoring_a_txt ''./'')
   \<and> regular ''a.txt'' ''a.txt'' 5 \<in> set (Walk ignoring_a_txt ''./'')
   \<and> descriptor_entry ''services: {}'' ''docker-compose.yml''
       \<in> set [descriptor_entry ''services: {}'' ''docker-compose.yml'',
               descriptor_entry ''services: {}'' ''sub/docker-compose.yml'']
   \<and> ''a.txt'' \<in> set (ReadAll ignoring_a_txt ''a.txt'')
   \<and> Match ignoring_a_txt ''a.txt''
        (hdr_Name (header (descriptor_entry ''services: {}'' ''docker-compose.yml'')))
       \<noteq> (True, None)
   \<and> ReadAll ignoring_a_txt ''a.txt'' \<noteq> []
   \<and> Match ignoring_a_txt ''.composeappignores'' ''.composeappignores'' = (True, None)
   \<and> hdr_Name (header (descriptor_entry ''services: {}'' ''docker-compose.yml''))
       \<noteq> ''.composeappignores''"
proof -
  have 1: "createTgz_part001 ignoring_a_txt ''services: {}'' ''./''
     = (Inr [descriptor_entry ''services: {}'' ''docker-compose.yml'',
             descriptor_entry ''services: {}'' ''sub/docker-compose.yml''],
        [Println [''  |-> ignoring: '', ''.composeappignores''],
         Println [''  |-> ignoring: '', ''a.txt'']])"
    by (rule createTgz_part001_ignoring_a_txt)
  have 2: "ignore_file ignoring_a_txt = Some ''a.txt''"
    by (simp add: ignoring_a_txt_def bundle_dir_def)
  have 3: "ignore_visit 5 \<in> set (Walk ignoring_a_txt ''./'')"
    "regular ''a.txt'' ''a.txt'' 5 \<in> set (Walk ignoring_a_txt ''./'')"
    by (simp_all add: ignoring_a_txt_def bundle_dir_def three_files_def)
  have 4: "descriptor_entry ''services: {}'' ''docker-compose.yml''
       \<in> set [descriptor_entry ''services: {}'' ''docker-compose.yml'',
               descriptor_entry ''services: {}'' ''sub/docker-compose.yml'']"
    by simp
  have 5: "''a.txt'' \<in> set (ReadAll ignoring_a_txt ''a.txt'')"
    "ReadAll ignoring_a_txt ''a.txt'' \<noteq> []"
    by (simp_all add: ignoring_a_txt_def bundle_dir_def)
  have 6: "Match ignoring_a_txt ''.composeappignores'' ''.composeappignores'' = (True, None)"
    by (simp add: ignoring_a_txt_def bundle_dir_def literal_match_def)
  from ignored_entries_are_absent[OF 1 2] 4 5 6
  have "Match ignoring_a_txt ''a.txt''
        (hdr_Name (header (descriptor_entry ''services: {}'' ''docker-compose.yml'')))
       \<noteq> (True, None)"
    and "hdr_Name (header (descriptor_entry ''services: {}'' ''docker-compose.yml''))
       \<noteq> ''.composeappignores''"
    by blast+
  with 1 2 3 4 5 6 show ?thesis by simp
qed

text \<open>
  The claim as it is written has the ignore file left out whatever its contents.  An
  ignore file without a pattern (an empty file) gives no patterns at all, its own name
  is not added, and the file is an entry of the archive.
\<close>
theorem empty_ignore_file_counterexample:
  "ignore_file empty_ignore_file = Some []
   \<and> ReadAll empty_ignore_file [] = []
   \<and> createTgz_part001 empty_ignore_file ''services: {}'' ''./''
       = (Inr [\<lparr>header = \<lparr>hdr_Name = ''.composeappignores'', hdr_Size = 0,
                           hdr_Typeflag = TypeReg, hdr_Linkname = []\<rparr>,
                data = []\<rparr>], [])"
  by (simp add: tgz_eval)

section \<open>Failures of the publication\<close>

text \<open>Up to the upload of the blob, and after it, an error is returned to the caller.\<close>
lemma publish_archive_manifest_failure:
  "ParseTarget regc target = Inr named \<Longrightarrow> GetTargetRepository regc named = Inr repo \<Longrightarrow>
   BlobsPut repo ''application/tar+gzip'' buff = Inr desc \<Longrightarrow>
   Build repo \<lparr>layer = desc, annotations = [(kind, ''v1'')]\<rparr> = Inr manifest \<Longrightarrow>
   ManifestService repo = None \<Longrightarrow>
   ManifestsPut repo manifest (case ref_tag (TagNameOnly named) of Some t \<Rightarrow> t | None \<Rightarrow> ''latest'')
     = Inl e \<Longrightarrow>
   fst (publish_archive regc kind word buff target) = Some (Upstream e)"
  by (simp add: publish_archive_def)

text \<open>A failed upload of the blob ends the publication with nil.\<close>
lemma publish_archive_blob_failure:
  "ParseTarget regc target = Inr named \<Longrightarrow> GetTargetRepository regc named = Inr repo \<Longrightarrow>
   BlobsPut repo ''application/tar+gzip'' buff = Inl e \<Longrightarrow>
   publish_archive regc kind word buff target = (None, [])"
  by (simp add: publish_archive_def)

text \<open>
  Claim C2 does not hold for the upload of the blob.  After \<^verbatim>\<open>blobStore.Put\<close> the code
  returns \<^verbatim>\<open>nil\<close> where it has the error at hand: a registry that refuses the blob
  makes \<^verbatim>\<open>CreateBundle\<close>, and \<^verbatim>\<open>CreateApp\<close> as well, return nil, with no manifest
  pushed and nothing printed.  A registry that takes the blob and refuses the manifest
  makes \<^verbatim>\<open>CreateBundle\<close> return the error of the push.
\<close>
theorem blob_failure_returns_nil:
  "BlobsPut refusing_blobs ''application/tar+gzip''
       [a_txt_entry,
        descriptor_entry ''services: {}'' ''docker-compose.yml'',
        descriptor_entry ''services: {}'' ''sub/docker-compose.yml'']
     = Inl ''blob upload failed''
   \<and> CreateBundle (publisher refusing_blobs) (bundle_dir None [] three_files) ()
        ''example.org/app'' = (None, [])
   \<and> CreateApp (publisher refusing_blobs) (bundle_dir None [] three_files) ()
        ''example.org/app'' = (None, [])
   \<and> CreateBundle (publisher refusing_manifests) (bundle_dir None [] three_files) ()
        ''example.org/app''
       = (Some (Upstream ''manifest push failed''), [Println [''  |-> bundle: '', ''sha256:bbb'']])"
  by (simp add: CreateBundle_def CreateApp_def publisher_def publish_archive_def
        createTgz_publish_three_files createTgz_part001_three_files
        refusing_blobs_def refusing_manifests_def accepting_def TagNameOnly_def)

end
